theory Spec2Isabelle
  imports Main
begin

section \<open>Strings as the source reads them\<close>

text \<open>
  A \<^typ>\<open>string\<close> is the list of the code units of a JavaScript string; the model covers
  code units below 256. \<open>is_ws\<close> is the white space of \<open>String.prototype.trim\<close> and of the
  regular expression classes \<open>\s\<close> and \<open>\S\<close> in that range: tab, line feed, vertical tab,
  form feed, carriage return, space and no-break space.
\<close>

definition is_ws :: "char \<Rightarrow> bool" where
  "is_ws c = (c \<in> set [CHR 0x09, CHR 0x0A, CHR 0x0B, CHR 0x0C, CHR 0x0D, CHR 0x20, CHR 0xA0])"

definition trim :: "string \<Rightarrow> string" where
  "trim s = rev (dropWhile is_ws (rev (dropWhile is_ws s)))"

text \<open>\<open>s.startsWith(p)\<close>, \<open>s.endsWith(p)\<close> and \<open>s.includes(p)\<close>.\<close>

definition startsWith :: "string \<Rightarrow> string \<Rightarrow> bool" where
  "startsWith s p = (take (length p) s = p)"

definition endsWith :: "string \<Rightarrow> string \<Rightarrow> bool" where
  "endsWith s p = (length p \<le> length s \<and> drop (length s - length p) s = p)"


text \<open>\<open>line.search(/\S/)\<close>: the index of the first character that is not white space, or -1.\<close>

definition search_nonws :: "string \<Rightarrow> int" where
  "search_nonws s =
     (let n = length (takeWhile is_ws s) in if n < length s then int n else - 1)"

text \<open>\<open>s.indexOf(c)\<close> for a single character \<open>c\<close>.\<close>

definition indexOf :: "string \<Rightarrow> char \<Rightarrow> int" where
  "indexOf s c = (if c \<in> set s then int (length (takeWhile (\<lambda>x. x \<noteq> c) s)) else - 1)"

text \<open>\<open>text.split('\n')\<close>: never empty; the text after the last line feed is the last line.\<close>

fun split_on :: "char \<Rightarrow> string \<Rightarrow> string list" where
  "split_on c [] = [[]]"
| "split_on c (x # xs) =
     (if x = c then [] # split_on c xs
      else (case split_on c xs of [] \<Rightarrow> [[x]] | l # ls \<Rightarrow> (x # l) # ls))"

definition split_lines :: "string \<Rightarrow> string list" where
  "split_lines text = split_on (CHR 0x0A) text"

definition is_digit :: "char \<Rightarrow> bool" where
  "is_digit c = (c \<in> set ''0123456789'')"

definition digit_val :: "char \<Rightarrow> int" where
  "digit_val c = int (length (takeWhile (\<lambda>d. d \<noteq> c) ''0123456789''))"

definition digits_val :: "string \<Rightarrow> int" where
  "digits_val s = foldl (\<lambda>n c. 10 * n + digit_val c) 0 s"

text \<open>The decimal numeral of a natural number, as \<open>String(i)\<close> prints an array index.\<close>

fun nat_digits :: "nat \<Rightarrow> nat \<Rightarrow> string" where
  "nat_digits 0 n = []"
| "nat_digits (Suc fuel) n =
     (if n < 10 then [''0123456789'' ! n]
      else nat_digits fuel (n div 10) @ [''0123456789'' ! (n mod 10)])"

definition show_nat :: "nat \<Rightarrow> string" where
  "show_nat n = nat_digits (Suc n) n"

section \<open>Values of the parsed tree\<close>

text \<open>
  \<open>JNum m k\<close> is the number \<open>m / 10 ^ k\<close>, kept as the decimal it was read from
  (\<open>parseInt\<close> gives \<open>k = 0\<close>, \<open>parseFloat\<close> of \<open>d.f\<close> gives \<open>k = length f\<close>); the rounding
  of JavaScript numbers to binary64 is not modelled. An object is the list of its own
  properties in the order \<open>Object.keys\<close> enumerates them. An array is its elements
  together with the named (non-index) own properties that an assignment
  \<open>target[key] = value\<close> can give it. Properties inherited from a prototype are not part
  of a value.
\<close>

datatype jsval =
    JNull
  | JBool bool
  | JNum int nat
  | JStr string
  | JArr "jsval list" "(string \<times> jsval) list"
  | JObj "(string \<times> jsval) list"

fun isArray :: "jsval \<Rightarrow> bool" where
  "isArray (JArr xs ps) = True"
| "isArray _ = False"

text \<open>\<open>typeof v === 'object' && v !== null\<close>.\<close>

fun is_object :: "jsval \<Rightarrow> bool" where
  "is_object (JArr xs ps) = True"
| "is_object (JObj kvs) = True"
| "is_object _ = False"

text \<open>The truth value of \<open>v\<close> in a condition; an absent property (\<open>undefined\<close>) is \<open>None\<close>.\<close>

fun truthy :: "jsval \<Rightarrow> bool" where
  "truthy JNull = False"
| "truthy (JBool b) = b"
| "truthy (JNum m k) = (m \<noteq> 0)"
| "truthy (JStr s) = (s \<noteq> [])"
| "truthy (JArr xs ps) = True"
| "truthy (JObj kvs) = True"

definition truthy_opt :: "jsval option \<Rightarrow> bool" where
  "truthy_opt v = (case v of None \<Rightarrow> False | Some x \<Rightarrow> truthy x)"

text \<open>
  Own property order: keys that are canonical array indices come first, in ascending
  numeric order, then all other keys in the order they were first assigned. \<open>obj_set\<close> is
  \<open>o[key] = v\<close> on the property list of a plain object: an existing key keeps its place.
\<close>

definition is_index_key :: "string \<Rightarrow> bool" where
  "is_index_key s =
     (s \<noteq> [] \<and> list_all is_digit s \<and> (s = ''0'' \<or> hd s \<noteq> CHR ''0'') \<and>
      digits_val s < 4294967295)"

fun obj_insert :: "string \<Rightarrow> 'v \<Rightarrow> (string \<times> 'v) list \<Rightarrow> (string \<times> 'v) list" where
  "obj_insert k v [] = [(k, v)]"
| "obj_insert k v ((k', v') # r) =
     (if is_index_key k \<and> (\<not> is_index_key k' \<or> digits_val k < digits_val k')
      then (k, v) # (k', v') # r
      else (k', v') # obj_insert k v r)"

definition obj_set :: "(string \<times> 'v) list \<Rightarrow> string \<Rightarrow> 'v \<Rightarrow> (string \<times> 'v) list" where
  "obj_set kvs k v =
     (if k \<in> set (map fst kvs)
      then map (\<lambda>(k', v'). if k' = k then (k', v) else (k', v')) kvs
      else obj_insert k v kvs)"

section \<open>Diagnostics\<close>

datatype severity_level = Error | Warning

text \<open>
  The message templates of the source, with the values interpolated into them:
  \<^item> \<open>TabsNotAllowed\<close>: \<^verbatim>\<open>Tabs are not allowed in YAML, use spaces\<close>
  \<^item> \<open>InconsistentIndentation u i\<close>: \<^verbatim>\<open>Inconsistent indentation: expected multiple of u spaces, got i\<close>
  \<^item> \<open>IndentationIncreased d u\<close>: \<^verbatim>\<open>Indentation increased by d spaces, expected at most u\<close>
  \<^item> \<open>ListParentNotList\<close>: \<^verbatim>\<open>List item found but parent is not a list. Check indentation.\<close>
  \<^item> \<open>InvalidYamlSyntax\<close>: \<^verbatim>\<open>Invalid YAML syntax\<close>
  \<^item> \<open>ServiceKeyAtRoot k\<close>: \<^verbatim>\<open>"k" should be inside a service definition, not at root level. Check indentation.\<close>
  \<^item> \<open>DeployKeyAtRoot k\<close>: \<^verbatim>\<open>"k" should be inside a deploy section, not at root level. Check indentation.\<close>
  \<^item> \<open>UnknownTopLevelKey k\<close>: \<^verbatim>\<open>Unknown top-level key: "k"\<close>
  \<^item> \<open>InvalidVersion v\<close>: \<^verbatim>\<open>Invalid version: "v"\<close>
  \<^item> \<open>MissingImageOrBuild s\<close>: \<^verbatim>\<open>Service "s" must have either "image" or "build" defined\<close>
  \<^item> \<open>UnknownServiceKey k s\<close>: \<^verbatim>\<open>Unknown service key: "k" in service "s"\<close>
  \<^item> \<open>UnknownSectionKey k sec item\<close>: \<^verbatim>\<open>Unknown key: "k" in sec."item"\<close>
  \<^item> \<open>InvalidValue v k\<close>: \<^verbatim>\<open>Invalid value "v" for "k"\<close>
  \<^item> \<open>UnknownNestedKey k c\<close>: \<^verbatim>\<open>Unknown key: "k" in c\<close>
\<close>

datatype msg =
    TabsNotAllowed
  | InconsistentIndentation int int
  | IndentationIncreased int int
  | ListParentNotList
  | InvalidYamlSyntax
  | ServiceKeyAtRoot string
  | DeployKeyAtRoot string
  | UnknownTopLevelKey string
  | InvalidVersion string
  | MissingImageOrBuild string
  | UnknownServiceKey string string
  | UnknownSectionKey string string string
  | InvalidValue string string
  | UnknownNestedKey string string

text \<open>A field the source's object literal does not have is \<open>None\<close>.\<close>

record diag =
  line :: nat
  column :: nat
  message :: msg
  severity :: "severity_level option"
  validValues :: "string list option"
  validKeys :: "string list option"

definition mk_diag :: "nat \<Rightarrow> nat \<Rightarrow> msg \<Rightarrow> severity_level option \<Rightarrow> diag" where
  "mk_diag l c m s =
     \<lparr>line = l, column = c, message = m, severity = s, validValues = None, validKeys = None\<rparr>"

section \<open>YamlParser.parse\<close>

subsection \<open>parseValue\<close>

definition is_int_literal :: "string \<Rightarrow> bool" where
  \<comment> \<open>\<open>/^-?\d+$/\<close>\<close>
  "is_int_literal s =
     (let d = (if startsWith s ''-'' then tl s else s) in d \<noteq> [] \<and> list_all is_digit d)"

definition is_float_literal :: "string \<Rightarrow> bool" where
  \<comment> \<open>\<open>/^-?\d+\.\d+$/\<close>\<close>
  "is_float_literal s =
     (let d = (if startsWith s ''-'' then tl s else s);
          a = takeWhile is_digit d; b = dropWhile is_digit d
      in a \<noteq> [] \<and> startsWith b ''.'' \<and> tl b \<noteq> [] \<and> list_all is_digit (tl b))"

definition parse_number :: "string \<Rightarrow> jsval" where
  \<comment> \<open>\<open>parseInt(str, 10)\<close> and \<open>parseFloat(str)\<close> on a string of one of the two shapes above\<close>
  "parse_number s =
     (let neg = startsWith s ''-''; d = (if neg then tl s else s);
          a = takeWhile is_digit d; f = drop (Suc (length a)) d;
          m = digits_val (a @ f)
      in JNum (if neg then - m else m) (length f))"

definition is_quoted :: "string \<Rightarrow> bool" where
  "is_quoted s =
     ((startsWith s ''\"'' \<and> endsWith s ''\"'') \<or>
      (startsWith s [CHR 0x27] \<and> endsWith s [CHR 0x27]))"

definition parseValue :: "string \<Rightarrow> jsval" where
  "parseValue str =
     (if str = ''true'' \<or> str = ''True'' \<or> str = ''TRUE'' then JBool True
      else if str = ''false'' \<or> str = ''False'' \<or> str = ''FALSE'' then JBool False
      else if str = ''null'' \<or> str = ''Null'' \<or> str = ''NULL'' \<or> str = ''~'' then JNull
      else if is_int_literal str then parse_number str
      else if is_float_literal str then parse_number str
      else if is_quoted str then JStr (butlast (tl str))
      else JStr str)"

subsection \<open>The tree under construction and the frame stack\<close>

text \<open>
  The source keeps, in every stack frame, a reference \<open>obj\<close> to a container inside the
  tree \<open>result\<close> and mutates it in place. The model keeps the tree as one value and, in the
  frame, the path from the root to that container. A container is always created empty
  and stored (by \<open>target[key] = ...\<close> or \<open>target.push(...)\<close>) before its frame is pushed; a
  property is reassigned only through the frame on top of the stack, after the frames of
  everything stored below it were popped, and \<open>push\<close> only appends: the path of a frame
  on the stack keeps denoting the object its \<open>obj\<close> refers to.
\<close>

datatype pelem = PKey string | PIdx nat

record frame =
  indent :: int
  obj :: "pelem list"

fun get_at :: "jsval \<Rightarrow> pelem list \<Rightarrow> jsval option" where
  "get_at v [] = Some v"
| "get_at (JObj kvs) (PKey k # p) =
     (case map_of kvs k of None \<Rightarrow> None | Some c \<Rightarrow> get_at c p)"
| "get_at (JArr xs ps) (PKey k # p) =
     (case map_of ps k of None \<Rightarrow> None | Some c \<Rightarrow> get_at c p)"
| "get_at (JArr xs ps) (PIdx i # p) = (if i < length xs then get_at (xs ! i) p else None)"
| "get_at v (e # p) = None"

fun put_at :: "pelem list \<Rightarrow> jsval \<Rightarrow> jsval \<Rightarrow> jsval" where
  "put_at [] new v = new"
| "put_at (PKey k # p) new (JObj kvs) =
     JObj (map (\<lambda>(k', c). if k' = k then (k', put_at p new c) else (k', c)) kvs)"
| "put_at (PKey k # p) new (JArr xs ps) =
     JArr xs (map (\<lambda>(k', c). if k' = k then (k', put_at p new c) else (k', c)) ps)"
| "put_at (PIdx i # p) new (JArr xs ps) =
     (if i < length xs then JArr (xs[i := put_at p new (xs ! i)]) ps else JArr xs ps)"
| "put_at (e # p) new v = v"

text \<open>
  Where the model stops. \<open>TypeError n\<close>: the source raises TypeError; in \<open>parse\<close> at line \<open>n\<close>
  (it calls \<open>target.push\<close> on an array whose own property \<open>push\<close> an earlier line has
  overwritten), in \<open>getContext\<close> at the line \<open>n\<close> that the text does not have, in
  \<open>validate\<close> and in \<open>getValueSuggestions\<close> with \<open>n = 0\<close>. \<open>Unmodelled n\<close>: at line \<open>n\<close> the
  source assigns \<open>target[key]\<close> where the effect is not a plain property of the tree: the
  key \<open>__proto__\<close> (it changes the prototype), or, on an array, an index key (it sets an
  element, leaving holes) or \<open>length\<close> (it resizes the array, or raises RangeError).
  \<open>LostFrame n\<close>: the path of the top frame denotes nothing, which the discipline
  described above excludes (it is proved below that no run ends so).
\<close>

datatype halt = TypeError nat | Unmodelled nat | LostFrame nat

text \<open>\<open>target[key] = v\<close>.\<close>

fun assign :: "nat \<Rightarrow> jsval \<Rightarrow> string \<Rightarrow> jsval \<Rightarrow> halt + jsval" where
  "assign n (JObj kvs) key v =
     (if key = ''__proto__'' then Inl (Unmodelled n) else Inr (JObj (obj_set kvs key v)))"
| "assign n (JArr xs ps) key v =
     (if key = ''__proto__'' \<or> key = ''length'' \<or> is_index_key key then Inl (Unmodelled n)
      else Inr (JArr xs (obj_set ps key v)))"
| "assign n t key v = Inl (LostFrame n)"

text \<open>\<open>target.push(v)\<close> on an array.\<close>

fun push :: "nat \<Rightarrow> jsval \<Rightarrow> jsval \<Rightarrow> halt + jsval" where
  "push n (JArr xs ps) v =
     (if ''push'' \<in> set (map fst ps) then Inl (TypeError n) else Inr (JArr (xs @ [v]) ps))"
| "push n t v = Inl (LostFrame n)"

record pstate =
  result :: jsval
  stack :: "frame list"
  st_errors :: "diag list"
  indentUnit :: int
  lastIndent :: int

text \<open>The stack's top is the head of the list; the root frame is its last element.\<close>

definition init_state :: pstate where
  "init_state =
     \<lparr>result = JObj [], stack = [\<lparr>indent = - 1, obj = []\<rparr>], st_errors = [],
      indentUnit = 0, lastIndent = 0\<rparr>"

fun pop_frames :: "int \<Rightarrow> frame list \<Rightarrow> frame list" where
  "pop_frames i (f # g # rest) =
     (if indent f \<ge> i then pop_frames i (g # rest) else f # g # rest)"
| "pop_frames i fs = fs"

definition top_path :: "frame list \<Rightarrow> pelem list" where
  "top_path fs = (case fs of [] \<Rightarrow> [] | f # rest \<Rightarrow> obj f)"

subsection \<open>One line of the loop\<close>

text \<open>A content line: not blank and not a comment (line 29 of the source).\<close>

definition is_content :: "string \<Rightarrow> bool" where
  "is_content l = (\<not> (trim l = [] \<or> startsWith (trim l) ''#''))"

text \<open>
  Lines 34 to 67: the tab check, the indentation unit and the two indentation checks;
  \<open>lastIndent\<close> is set last.
\<close>

definition tab_diags :: "nat \<Rightarrow> string \<Rightarrow> diag list" where
  "tab_diags lineNum l =
     (if CHR 0x09 \<in> set l
      then [mk_diag lineNum (nat (indexOf l (CHR 0x09) + 1)) TabsNotAllowed (Some Error)]
      else [])"

definition new_unit :: "int \<Rightarrow> int \<Rightarrow> int" where
  "new_unit unit ind = (if ind > 0 \<and> unit = 0 then ind else unit)"

definition multiple_diags :: "nat \<Rightarrow> int \<Rightarrow> int \<Rightarrow> diag list" where
  "multiple_diags lineNum unit ind =
     (if unit > 0 \<and> ind > 0 \<and> ind mod unit \<noteq> 0
      then [mk_diag lineNum 1 (InconsistentIndentation unit ind) (Some Error)] else [])"

definition jump_diags :: "nat \<Rightarrow> int \<Rightarrow> int \<Rightarrow> int \<Rightarrow> diag list" where
  "jump_diags lineNum unit lastInd ind =
     (if unit > 0 \<and> ind > 0 \<and> ind > lastInd + unit \<and> lastInd \<ge> 0
      then [mk_diag lineNum 1 (IndentationIncreased (ind - lastInd) unit) (Some Error)] else [])"

definition check_indent :: "nat \<Rightarrow> string \<Rightarrow> pstate \<Rightarrow> pstate" where
  "check_indent lineNum l st =
     (let ind = search_nonws l; unit = new_unit (indentUnit st) ind
      in st\<lparr>st_errors := st_errors st @ tab_diags lineNum l @ multiple_diags lineNum unit ind
                 @ jump_diags lineNum unit (lastIndent st) ind,
            indentUnit := unit, lastIndent := ind\<rparr>)"

text \<open>Lines 143 to 153: the next content line decides between array and object.\<close>

fun lookahead :: "string list \<Rightarrow> int \<times> bool" where
  "lookahead [] = (- 1, False)"
| "lookahead (l # ls) =
     (if is_content l then (search_nonws l, startsWith (trim l) ''-'') else lookahead ls)"

text \<open>
  \<open>store lineNum st key v\<close> is \<open>target[key] = v\<close> and \<open>append lineNum st v\<close> is
  \<open>target.push(v)\<close>, for the target of the top frame; \<open>push_frame\<close> is \<open>stack.push\<close>.
\<close>

definition store :: "nat \<Rightarrow> pstate \<Rightarrow> string \<Rightarrow> jsval \<Rightarrow> halt + pstate" where
  "store lineNum st key v =
     (let p = top_path (stack st) in
      case get_at (result st) p of
        None \<Rightarrow> Inl (LostFrame lineNum)
      | Some target \<Rightarrow>
          (case assign lineNum target key v of
             Inl e \<Rightarrow> Inl e
           | Inr t' \<Rightarrow> Inr (st\<lparr>result := put_at p t' (result st)\<rparr>)))"

definition append :: "nat \<Rightarrow> pstate \<Rightarrow> jsval \<Rightarrow> halt + pstate" where
  "append lineNum st v =
     (let p = top_path (stack st) in
      case get_at (result st) p of
        None \<Rightarrow> Inl (LostFrame lineNum)
      | Some target \<Rightarrow>
          (case push lineNum target v of
             Inl e \<Rightarrow> Inl e
           | Inr t' \<Rightarrow> Inr (st\<lparr>result := put_at p t' (result st)\<rparr>)))"

definition push_frame :: "int \<Rightarrow> pelem list \<Rightarrow> pstate \<Rightarrow> pstate" where
  "push_frame ind p st = st\<lparr>stack := \<lparr>indent = ind, obj = p\<rparr> # stack st\<rparr>"

definition array_length :: "jsval \<Rightarrow> nat" where
  "array_length t = (case t of JArr xs ps \<Rightarrow> length xs | _ \<Rightarrow> 0)"

text \<open>Lines 88 to 125: a list item \<open>- value\<close>, the target being an array.\<close>

definition list_item :: "nat \<Rightarrow> int \<Rightarrow> string \<Rightarrow> jsval \<Rightarrow> pstate \<Rightarrow> halt + pstate" where
  "list_item lineNum ind trimmed target st =
     (let v = trim (drop 2 trimmed); p = top_path (stack st); n = array_length target in
      if v = [] \<or> (\<not> is_quoted v \<and> CHR '':'' \<in> set v) then
        (if v = [] then
           (case append lineNum st (JObj []) of
              Inl e \<Rightarrow> Inl e
            | Inr st' \<Rightarrow> Inr (push_frame ind (p @ [PIdx n]) st'))
         else
           (let colonIdx = nat (indexOf v (CHR '':''));
                key = trim (take colonIdx v);
                val = trim (drop (colonIdx + 1) v)
            in if key = ''__proto__'' then Inl (Unmodelled lineNum)
               else if val = [] then
                 (case append lineNum st (JObj [(key, JObj [])]) of
                    Inl e \<Rightarrow> Inl e
                  | Inr st' \<Rightarrow> Inr (push_frame ind (p @ [PIdx n, PKey key]) st'))
               else append lineNum st (JObj [(key, parseValue val)])))
      else append lineNum st (parseValue v))"

text \<open>Lines 137 to 179: a \<open>key: value\<close> line, or a line that is neither.\<close>

definition is_block_marker :: "string \<Rightarrow> bool" where
  "is_block_marker s = (s = [] \<or> s = ''|'' \<or> s = ''>'' \<or> s = ''|-'' \<or> s = ''>-'')"

definition key_value :: "nat \<Rightarrow> int \<Rightarrow> string \<Rightarrow> string list \<Rightarrow> pstate \<Rightarrow> halt + pstate" where
  "key_value lineNum ind trimmed rest st =
     (let colonIdx = indexOf trimmed (CHR '':'') in
      if colonIdx > 0 then
        (let key = trim (take (nat colonIdx) trimmed);
             valueStr = trim (drop (nat colonIdx + 1) trimmed);
             (nextIndent, nextIsArray) = lookahead rest;
             p = top_path (stack st)
         in if is_block_marker valueStr then
              (if nextIndent > ind then
                 (case store lineNum st key (if nextIsArray then JArr [] [] else JObj []) of
                    Inl e \<Rightarrow> Inl e
                  | Inr st' \<Rightarrow> Inr (push_frame ind (p @ [PKey key]) st'))
               else store lineNum st key (if valueStr = [] then JNull else JStr []))
            else if valueStr = ''[]'' then store lineNum st key (JArr [] [])
            else if valueStr = ''{}'' then store lineNum st key (JObj [])
            else store lineNum st key (parseValue valueStr))
      else if colonIdx = - 1 \<and> \<not> startsWith trimmed ''-'' then
        Inr (st\<lparr>st_errors := st_errors st @ [mk_diag lineNum 1 InvalidYamlSyntax None]\<rparr>)
      else Inr st)"

text \<open>
  The body of the loop for the line \<open>l\<close> with number \<open>lineNum\<close>; \<open>rest\<close> are the lines after
  it, which the lookahead reads.
\<close>

definition parse_line :: "nat \<Rightarrow> string \<Rightarrow> string list \<Rightarrow> pstate \<Rightarrow> halt + pstate" where
  "parse_line lineNum l rest st0 =
     (let trimmed = trim l in
      if \<not> is_content l then Inr st0
      else
        let ind = search_nonws l in
        if ind = - 1 then Inr st0
        else
          let st1 = check_indent lineNum l st0;
              st2 = st1\<lparr>stack := pop_frames ind (stack st1)\<rparr>
          in case get_at (result st2) (top_path (stack st2)) of
               None \<Rightarrow> Inl (LostFrame lineNum)
             | Some target \<Rightarrow>
                 let st3 = (if startsWith trimmed ''-'' \<and> \<not> isArray target
                            then st2\<lparr>st_errors := st_errors st2 @
                                       [mk_diag lineNum 1 ListParentNotList (Some Error)]\<rparr>
                            else st2)
                 in if startsWith trimmed ''- '' then
                      (if \<not> isArray target then Inr st3
                       else list_item lineNum ind trimmed target st3)
                    else if trimmed = ''-'' then
                      (if isArray target then
                         (case append lineNum st3 (JObj []) of
                            Inl e \<Rightarrow> Inl e
                          | Inr st' \<Rightarrow>
                              Inr (push_frame ind
                                     (top_path (stack st3) @ [PIdx (array_length target)]) st'))
                       else Inr st3)
                    else key_value lineNum ind trimmed rest st3)"

fun parse_lines :: "nat \<Rightarrow> string list \<Rightarrow> pstate \<Rightarrow> halt + pstate" where
  "parse_lines n [] st = Inr st"
| "parse_lines n (l # rest) st =
     (case parse_line (Suc n) l rest st of
        Inl e \<Rightarrow> Inl e
      | Inr st' \<Rightarrow> parse_lines (Suc n) rest st')"

record document =
  data :: jsval
  errors :: "diag list"

definition parse :: "string \<Rightarrow> halt + document" where
  "parse text =
     (case parse_lines 0 (split_lines text) init_state of
        Inl e \<Rightarrow> Inl e
      | Inr st \<Rightarrow> Inr \<lparr>data = result st, errors = st_errors st\<rparr>)"

section \<open>YamlParser.stringify\<close>

text \<open>
  \<open>Number.prototype.toString\<close> on the decimal \<open>m / 10 ^ k\<close>: the integer part, then the
  fraction without its trailing zeros. (JavaScript prints a number this way when it has at
  most 15 significant digits and lies between \<open>1e-6\<close> and \<open>1e21\<close> in magnitude.)
\<close>

definition number_toString :: "int \<Rightarrow> nat \<Rightarrow> string" where
  "number_toString m k =
     (let ds = show_nat (nat \<bar>m\<bar>);
          padded = replicate (Suc k - length ds) (CHR ''0'') @ ds;
          ip = take (length padded - k) padded;
          fp = rev (dropWhile (\<lambda>c. c = CHR ''0'') (rev (drop (length padded - k) padded)))
      in (if m < 0 then ''-'' else []) @ ip @ (if fp = [] then [] else ''.'' @ fp))"

fun join_with :: "string \<Rightarrow> string list \<Rightarrow> string" where
  "join_with sep [] = []"
| "join_with sep [x] = x"
| "join_with sep (x # y # r) = x @ sep @ join_with sep (y # r)"

text \<open>
  \<open>String(v)\<close>, with \<open>None\<close> where it raises TypeError. An object is converted by its
  \<open>toString\<close>: the inherited one gives \<open>[object Object]\<close>; an own property \<open>toString\<close> of the
  tree is a value, not a function, the conversion then falls to \<open>valueOf\<close>, which gives no
  primitive either, and raises. An array is converted by \<open>join\<close>, in which a \<open>null\<close> element
  prints as nothing and every other element by \<open>String\<close>; with an own property \<open>join\<close> it
  prints as \<open>[object Array]\<close>.
\<close>

fun js_String :: "jsval \<Rightarrow> string option" where
  "js_String JNull = Some ''null''"
| "js_String (JBool b) = Some (if b then ''true'' else ''false'')"
| "js_String (JNum m k) = Some (number_toString m k)"
| "js_String (JStr s) = Some s"
| "js_String (JObj kvs) =
     (if ''toString'' \<in> set (map fst kvs) then None else Some ''[object Object]'')"
| "js_String (JArr xs ps) =
     (if ''toString'' \<in> set (map fst ps) then None
      else if ''join'' \<in> set (map fst ps) then Some ''[object Array]''
      else map_option (join_with '','')
             (those (map (\<lambda>x. if x = JNull then Some [] else js_String x) xs)))"

definition needs_quotes :: "string \<Rightarrow> bool" where
  "needs_quotes val =
     (CHR '':'' \<in> set val \<or> CHR ''#'' \<in> set val \<or> CHR 0x27 \<in> set val \<or>
      startsWith val '' '' \<or> endsWith val '' '')"

definition escape_quotes :: "string \<Rightarrow> string" where
  \<comment> \<open>\<open>val.replace(/"/g, '\\"')\<close>\<close>
  "escape_quotes val = concat (map (\<lambda>c. if c = CHR 0x22 then [CHR 0x5C, c] else [c]) val)"

fun valueToString :: "jsval \<Rightarrow> string option" where
  "valueToString JNull = Some ''null''"
| "valueToString (JBool b) = Some (if b then ''true'' else ''false'')"
| "valueToString (JNum m k) = Some (number_toString m k)"
| "valueToString (JStr val) =
     Some (if needs_quotes val then [CHR 0x22] @ escape_quotes val @ [CHR 0x22] else val)"
| "valueToString v = js_String v"

definition spaces :: "nat \<Rightarrow> string" where
  "spaces n = replicate (2 * n) (CHR '' '')"

text \<open>
  \<open>stringify(obj, indent)\<close>: \<open>stringify_items\<close> is the loop over the elements of an array,
  \<open>stringify_entries\<close> the loop over \<open>Object.entries\<close> of an object. The result is \<open>None\<close> when
  a call of \<open>valueToString\<close> raises.
\<close>

definition then_text :: "string option \<Rightarrow> string option \<Rightarrow> string option" where
  \<comment> \<open>\<open>result += a\<close>, then the rest of the loop\<close>
  "then_text a b = (case a of None \<Rightarrow> None | Some x \<Rightarrow> map_option (\<lambda>y. x @ y) b)"

fun stringify :: "jsval \<Rightarrow> nat \<Rightarrow> string option"
  and stringify_items :: "jsval list \<Rightarrow> nat \<Rightarrow> string option"
  and stringify_entries :: "(string \<times> jsval) list \<Rightarrow> nat \<Rightarrow> string option" where
  "stringify (JArr xs ps) n = stringify_items xs n"
| "stringify (JObj kvs) n = stringify_entries kvs n"
| "stringify JNull n = Some []"
| "stringify (JBool b) n = Some []"
| "stringify (JNum m k) n = Some []"
| "stringify (JStr s) n = Some []"
| "stringify_items [] n = Some []"
| "stringify_items (item # r) n =
     then_text
       (if is_object item
        then map_option (\<lambda>t. spaces n @ ''-'' @ [CHR 0x0A] @ t) (stringify item (Suc n))
        else map_option (\<lambda>t. spaces n @ ''- '' @ t @ [CHR 0x0A]) (valueToString item))
       (stringify_items r n)"
| "stringify_entries [] n = Some []"
| "stringify_entries ((key, v) # r) n =
     then_text
       (if (case v of JObj kvs \<Rightarrow> kvs \<noteq> [] | _ \<Rightarrow> False)
        then map_option (\<lambda>t. spaces n @ key @ '':'' @ [CHR 0x0A] @ t) (stringify v (Suc n))
        else if isArray v
        then map_option (\<lambda>t. spaces n @ key @ '':'' @ [CHR 0x0A] @ t) (stringify v (Suc n))
        else map_option (\<lambda>t. spaces n @ key @ '': '' @ t @ [CHR 0x0A]) (valueToString v))
       (stringify_entries r n)"

section \<open>DockerComposeSchema\<close>

text \<open>
  A node of the schema table. Of the fields of the source's literal the model keeps
  \<open>values\<close> and \<open>children\<close>, the two the validator and the autocomplete engine branch on;
  \<open>type\<close>, \<open>description\<close>, \<open>example\<close>, \<open>required\<close> and \<open>isExtension\<close> are texts and flags that
  no code path tests. A table is the list of an object literal's entries, in the order
  written. What \<open>schema.values\<close> reads is nothing (\<open>Absent\<close>), an array of strings, or, for
  the one value described below that is not a node of the table, a function
  (\<open>NotAnArray\<close>).
\<close>

datatype values_field = Absent | Values "string list" | NotAnArray

datatype schema =
  Schema (sch_values: values_field) (sch_children: "(string \<times> schema) list option")

definition DockerComposeSchema :: "(string \<times> schema) list" where
  "DockerComposeSchema = [
    (''version'', Schema (Values [''3'', ''3.0'', ''3.1'', ''3.2'', ''3.3'', ''3.4'', ''3.5'',
            ''3.6'', ''3.7'', ''3.8'', ''3.9'']) None),
    (''services'', Schema Absent
        (Some [
          (''*'', Schema Absent
              (Some [
                (''image'', Schema Absent None),
                (''build'', Schema Absent
                    (Some [
                      (''context'', Schema Absent None),
                      (''dockerfile'', Schema Absent None),
                      (''args'', Schema Absent None),
                      (''cache_from'', Schema Absent None),
                      (''labels'', Schema Absent None),
                      (''network'', Schema (Values [''host'', ''none'', ''default'']) None),
                      (''shm_size'', Schema Absent None),
                      (''target'', Schema Absent None)])),
                (''command'', Schema Absent None),
                (''entrypoint'', Schema Absent None),
                (''container_name'', Schema Absent None),
                (''depends_on'', Schema Absent None),
                (''deploy'', Schema Absent
                    (Some [
                      (''mode'', Schema (Values [''replicated'', ''global'']) None),
                      (''replicas'', Schema Absent None),
                      (''endpoint_mode'', Schema (Values [''vip'', ''dnsrr'']) None),
                      (''labels'', Schema Absent None),
                      (''placement'', Schema Absent
                          (Some [
                            (''constraints'', Schema Absent None),
                            (''preferences'', Schema Absent None),
                            (''max_replicas_per_node'', Schema Absent None)])),
                      (''resources'', Schema Absent
                          (Some [
                            (''limits'', Schema Absent
                                (Some [
                                  (''cpus'', Schema Absent None),
                                  (''memory'', Schema Absent None),
                                  (''pids'', Schema Absent None)])),
                            (''reservations'', Schema Absent
                                (Some [
                                  (''cpus'', Schema Absent None),
                                  (''memory'', Schema Absent None),
                                  (''generic_resources'', Schema Absent None)]))])),
                      (''restart_policy'', Schema Absent
                          (Some [
                            (''condition'', Schema (Values [''none'', ''on-failure'',
            ''any'']) None),
                            (''delay'', Schema Absent None),
                            (''max_attempts'', Schema Absent None),
                            (''window'', Schema Absent None)])),
                      (''rollback_config'', Schema Absent
                          (Some [
                            (''parallelism'', Schema Absent None),
                            (''delay'', Schema Absent None),
                            (''failure_action'', Schema (Values [''continue'', ''pause'']) None),
                            (''monitor'', Schema Absent None),
                            (''max_failure_ratio'', Schema Absent None),
                            (''order'', Schema (Values [''start-first'',
            ''stop-first'']) None)])),
                      (''update_config'', Schema Absent
                          (Some [
                            (''parallelism'', Schema Absent None),
                            (''delay'', Schema Absent None),
                            (''failure_action'', Schema (Values [''continue'', ''pause'',
            ''rollback'']) None),
                            (''monitor'', Schema Absent None),
                            (''max_failure_ratio'', Schema Absent None),
                            (''order'', Schema (Values [''start-first'',
            ''stop-first'']) None)]))])),
                (''dns'', Schema Absent None),
                (''dns_search'', Schema Absent None),
                (''environment'', Schema Absent None),
                (''env_file'', Schema Absent None),
                (''expose'', Schema Absent None),
                (''external_links'', Schema Absent None),
                (''extra_hosts'', Schema Absent None),
                (''healthcheck'', Schema Absent
                    (Some [
                      (''test'', Schema Absent None),
                      (''interval'', Schema Absent None),
                      (''timeout'', Schema Absent None),
                      (''retries'', Schema Absent None),
                      (''start_period'', Schema Absent None),
                      (''disable'', Schema Absent None)])),
                (''hostname'', Schema Absent None),
                (''init'', Schema Absent None),
                (''labels'', Schema Absent None),
                (''links'', Schema Absent None),
                (''logging'', Schema Absent
                    (Some [
                      (''driver'', Schema (Values [''json-file'', ''syslog'', ''journald'',
            ''gelf'', ''fluentd'', ''awslogs'', ''splunk'', ''none'']) None),
                      (''options'', Schema Absent None)])),
                (''network_mode'', Schema (Values [''bridge'', ''host'', ''none'',
            ''service:[service name]'', ''container:[container name/id]'']) None),
                (''networks'', Schema Absent
                    (Some [
                      (''*'', Schema Absent
                          (Some [
                            (''aliases'', Schema Absent None),
                            (''ipv4_address'', Schema Absent None),
                            (''ipv6_address'', Schema Absent None)]))])),
                (''pid'', Schema (Values [''host'', ''service:[service name]'']) None),
                (''ports'', Schema Absent None),
                (''privileged'', Schema Absent None),
                (''read_only'', Schema Absent None),
                (''restart'', Schema (Values [''no'', ''always'', ''on-failure'',
            ''unless-stopped'']) None),
                (''secrets'', Schema Absent None),
                (''security_opt'', Schema Absent None),
                (''shm_size'', Schema Absent None),
                (''stdin_open'', Schema Absent None),
                (''stop_grace_period'', Schema Absent None),
                (''stop_signal'', Schema Absent None),
                (''sysctls'', Schema Absent None),
                (''tmpfs'', Schema Absent None),
                (''tty'', Schema Absent None),
                (''ulimits'', Schema Absent
                    (Some [
                      (''nproc'', Schema Absent None),
                      (''nofile'', Schema Absent None)])),
                (''user'', Schema Absent None),
                (''userns_mode'', Schema (Values [''host'']) None),
                (''volumes'', Schema Absent None),
                (''working_dir'', Schema Absent None),
                (''configs'', Schema Absent
                    (Some [
                      (''*'', Schema Absent
                          (Some [
                            (''source'', Schema Absent None),
                            (''target'', Schema Absent None),
                            (''uid'', Schema Absent None),
                            (''gid'', Schema Absent None),
                            (''mode'', Schema Absent None)]))])),
                (''cap_add'', Schema (Values [''ALL'', ''AUDIT_CONTROL'', ''AUDIT_WRITE'',
            ''BLOCK_SUSPEND'', ''CHOWN'', ''DAC_OVERRIDE'', ''DAC_READ_SEARCH'', ''FOWNER'',
            ''FSETID'', ''IPC_LOCK'', ''IPC_OWNER'', ''KILL'', ''LEASE'', ''LINUX_IMMUTABLE'',
            ''MAC_ADMIN'', ''MAC_OVERRIDE'', ''MKNOD'', ''NET_ADMIN'', ''NET_BIND_SERVICE'',
            ''NET_BROADCAST'', ''NET_RAW'', ''SETFCAP'', ''SETGID'', ''SETPCAP'', ''SETUID'',
            ''SYS_ADMIN'', ''SYS_BOOT'', ''SYS_CHROOT'', ''SYS_MODULE'', ''SYS_NICE'',
            ''SYS_PACCT'', ''SYS_PTRACE'', ''SYS_RAWIO'', ''SYS_RESOURCE'', ''SYS_TIME'',
            ''SYS_TTY_CONFIG'', ''SYSLOG'', ''WAKE_ALARM'']) None),
                (''cap_drop'', Schema (Values [''ALL'', ''AUDIT_CONTROL'', ''AUDIT_WRITE'',
            ''BLOCK_SUSPEND'', ''CHOWN'', ''DAC_OVERRIDE'', ''DAC_READ_SEARCH'', ''FOWNER'',
            ''FSETID'', ''IPC_LOCK'', ''IPC_OWNER'', ''KILL'', ''LEASE'', ''LINUX_IMMUTABLE'',
            ''MAC_ADMIN'', ''MAC_OVERRIDE'', ''MKNOD'', ''NET_ADMIN'', ''NET_BIND_SERVICE'',
            ''NET_BROADCAST'', ''NET_RAW'', ''SETFCAP'', ''SETGID'', ''SETPCAP'', ''SETUID'',
            ''SYS_ADMIN'', ''SYS_BOOT'', ''SYS_CHROOT'', ''SYS_MODULE'', ''SYS_NICE'',
            ''SYS_PACCT'', ''SYS_PTRACE'', ''SYS_RAWIO'', ''SYS_RESOURCE'', ''SYS_TIME'',
            ''SYS_TTY_CONFIG'', ''SYSLOG'', ''WAKE_ALARM'']) None),
                (''cgroup_parent'', Schema Absent None),
                (''devices'', Schema Absent None),
                (''domainname'', Schema Absent None),
                (''ipc'', Schema (Values [''host'', ''private'', ''shareable'',
            ''service:[service name]'', ''container:[container name/id]'']) None),
                (''isolation'', Schema (Values [''default'', ''process'', ''hyperv'']) None),
                (''mac_address'', Schema Absent None),
                (''platform'', Schema Absent None),
                (''profiles'', Schema Absent None),
                (''pull_policy'', Schema (Values [''always'', ''never'', ''missing'',
            ''build'']) None),
                (''runtime'', Schema Absent None),
                (''scale'', Schema Absent None),
                (''storage_opt'', Schema Absent None)]))])),
    (''networks'', Schema Absent
        (Some [
          (''*'', Schema Absent
              (Some [
                (''driver'', Schema (Values [''bridge'', ''overlay'', ''host'', ''none'',
            ''macvlan'', ''ipvlan'']) None),
                (''driver_opts'', Schema Absent None),
                (''attachable'', Schema Absent None),
                (''enable_ipv6'', Schema Absent None),
                (''external'', Schema Absent
                    (Some [
                      (''name'', Schema Absent None)])),
                (''internal'', Schema Absent None),
                (''ipam'', Schema Absent
                    (Some [
                      (''driver'', Schema (Values [''default'']) None),
                      (''config'', Schema Absent
                          (Some [
                            (''*'', Schema Absent
                                (Some [
                                  (''subnet'', Schema Absent None),
                                  (''ip_range'', Schema Absent None),
                                  (''gateway'', Schema Absent None),
                                  (''aux_addresses'', Schema Absent None)]))])),
                      (''options'', Schema Absent None)])),
                (''labels'', Schema Absent None),
                (''name'', Schema Absent None)]))])),
    (''volumes'', Schema Absent
        (Some [
          (''*'', Schema Absent
              (Some [
                (''driver'', Schema (Values [''local'', ''nfs'', ''cifs'']) None),
                (''driver_opts'', Schema Absent None),
                (''external'', Schema Absent
                    (Some [
                      (''name'', Schema Absent None)])),
                (''labels'', Schema Absent None),
                (''name'', Schema Absent None)]))])),
    (''configs'', Schema Absent
        (Some [
          (''*'', Schema Absent
              (Some [
                (''file'', Schema Absent None),
                (''external'', Schema Absent
                    (Some [
                      (''name'', Schema Absent None)])),
                (''name'', Schema Absent None),
                (''template_driver'', Schema Absent None)]))])),
    (''secrets'', Schema Absent
        (Some [
          (''*'', Schema Absent
              (Some [
                (''file'', Schema Absent None),
                (''external'', Schema Absent
                    (Some [
                      (''name'', Schema Absent None)])),
                (''name'', Schema Absent None),
                (''template_driver'', Schema Absent None)]))])),
    (''x'', Schema Absent None)]"

text \<open>
  \<open>table[key]\<close> on an object literal: its own entry, or else what \<open>Object.prototype\<close> holds
  under that name. Those inherited values (functions, and the prototype itself under
  \<open>__proto__\<close>) are truthy and have no \<open>children\<close>. They have no \<open>values\<close> either (\<open>inert\<close>),
  but for one: under \<open>constructor\<close> stands the function \<open>Object\<close>, whose \<open>values\<close> is the
  function \<open>Object.values\<close>, truthy and without the methods of an array
  (\<open>object_constructor\<close>).
\<close>

definition object_prototype_keys :: "string list" where
  "object_prototype_keys =
     [''constructor'', ''hasOwnProperty'', ''isPrototypeOf'', ''propertyIsEnumerable'',
      ''toLocaleString'', ''toString'', ''valueOf'', ''__defineGetter__'',
      ''__defineSetter__'', ''__lookupGetter__'', ''__lookupSetter__'', ''__proto__'']"

definition inert :: schema where
  "inert = Schema Absent None"

definition object_constructor :: schema where
  "object_constructor = Schema NotAnArray None"

definition lookup_prop :: "(string \<times> schema) list \<Rightarrow> string \<Rightarrow> schema option" where
  "lookup_prop table key =
     (case map_of table key of
        Some s \<Rightarrow> Some s
      | None \<Rightarrow>
          if key = ''constructor'' then Some object_constructor
          else if key \<in> set object_prototype_keys then Some inert
          else None)"

text \<open>
  The fixed lookups \<open>DockerComposeSchema.services.children['*']\<close> and the like, on entries
  the table has.
\<close>

definition children_of :: "schema \<Rightarrow> (string \<times> schema) list" where
  "children_of s = (case sch_children s of Some cs \<Rightarrow> cs | None \<Rightarrow> [])"

definition schema_at :: "(string \<times> schema) list \<Rightarrow> string \<Rightarrow> schema" where
  "schema_at table key = (case map_of table key of Some s \<Rightarrow> s | None \<Rightarrow> inert)"

definition serviceSchema :: schema where
  "serviceSchema = schema_at (children_of (schema_at DockerComposeSchema ''services'')) ''*''"

definition section_schema :: "string \<Rightarrow> schema" where
  "section_schema name = schema_at (children_of (schema_at DockerComposeSchema name)) ''*''"

section \<open>DockerComposeValidator\<close>

definition freeFormKeys :: "string list" where
  "freeFormKeys =
     [''driver_opts'', ''options'', ''labels'', ''args'', ''environment'',
      ''sysctls'', ''extra_hosts'', ''storage_opt'', ''aux_addresses'']"

definition serviceOnlyKeys :: "string list" where
  "serviceOnlyKeys =
     [''image'', ''build'', ''command'', ''entrypoint'', ''container_name'',
      ''depends_on'', ''deploy'', ''ports'', ''expose'', ''volumes'', ''environment'',
      ''env_file'', ''healthcheck'', ''logging'', ''networks'', ''restart'',
      ''secrets'', ''configs'', ''labels'', ''working_dir'', ''user'', ''privileged'',
      ''cap_add'', ''cap_drop'', ''devices'', ''dns'', ''dns_search'', ''tmpfs'',
      ''hostname'', ''domainname'', ''shm_size'', ''stop_grace_period'', ''stop_signal'',
      ''stdin_open'', ''tty'', ''ulimits'', ''init'', ''read_only'', ''pid'', ''ipc'',
      ''security_opt'', ''sysctls'', ''userns_mode'', ''isolation'', ''platform'']"

definition deployOnlyKeys :: "string list" where
  "deployOnlyKeys =
     [''mode'', ''replicas'', ''placement'', ''resources'', ''restart_policy'',
      ''update_config'', ''rollback_config'', ''endpoint_mode'']"

subsection \<open>findKeyLine\<close>

text \<open>
  The test of the regular expression \<^verbatim>\<open>^\s*-?\s*KEY\s*:\<close> on a line, \<open>KEY\<close> being the key with
  its special characters escaped, that is, the key taken literally. Each piece of the
  expression is a matcher that takes the matcher of what follows it, so every way of
  dividing the line between the pieces is tried, as backtracking does.
\<close>

fun ws_star :: "(string \<Rightarrow> bool) \<Rightarrow> string \<Rightarrow> bool" where
  "ws_star k [] = k []"
| "ws_star k (c # s) = (k (c # s) \<or> (is_ws c \<and> ws_star k s))"

definition opt_dash :: "(string \<Rightarrow> bool) \<Rightarrow> string \<Rightarrow> bool" where
  "opt_dash k s = (k s \<or> (case s of [] \<Rightarrow> False | c # r \<Rightarrow> c = CHR ''-'' \<and> k r))"

definition lit :: "string \<Rightarrow> (string \<Rightarrow> bool) \<Rightarrow> string \<Rightarrow> bool" where
  "lit p k s = (startsWith s p \<and> k (drop (length p) s))"

definition key_pattern :: "string \<Rightarrow> string \<Rightarrow> bool" where
  "key_pattern key l =
     ws_star (opt_dash (ws_star (lit key (ws_star (lit '':'' (\<lambda>r. True)))))) l"

fun find_line :: "(string \<Rightarrow> bool) \<Rightarrow> nat \<Rightarrow> string list \<Rightarrow> nat option" where
  "find_line P i [] = None"
| "find_line P i (l # ls) = (if P l then Some i else find_line P (Suc i) ls)"

definition findKeyLine :: "string list \<Rightarrow> string \<Rightarrow> nat \<Rightarrow> nat" where
  "findKeyLine lines key startLine =
     (case find_line (key_pattern key) startLine (drop startLine lines) of
        Some i \<Rightarrow> i + 1
      | None \<Rightarrow> startLine + 1)"

subsection \<open>Reading the parsed data\<close>

text \<open>
  \<open>Object.entries(v)\<close> and \<open>Object.keys(v)\<close>: of an array, the elements under their indices
  and then the named properties; of a string, its characters under their indices.
  \<open>js_get v name\<close> is the property read \<open>v.name\<close> for the names the validator reads
  (\<open>version\<close>, \<open>services\<close>, \<open>image\<close>, \<open>build\<close>, ...), \<open>None\<close> standing for \<open>undefined\<close>.
\<close>

fun js_entries :: "jsval \<Rightarrow> (string \<times> jsval) list" where
  "js_entries (JObj kvs) = kvs"
| "js_entries (JArr xs ps) = zip (map show_nat [0..<length xs]) xs @ ps"
| "js_entries (JStr s) = zip (map show_nat [0..<length s]) (map (\<lambda>c. JStr [c]) s)"
| "js_entries v = []"

definition js_keys :: "jsval \<Rightarrow> string list" where
  "js_keys v = map fst (js_entries v)"

definition js_get :: "jsval \<Rightarrow> string \<Rightarrow> jsval option" where
  "js_get v name = map_of (js_entries v) name"

subsection \<open>validateNestedConfig\<close>

definition diag_keys :: "nat \<Rightarrow> msg \<Rightarrow> severity_level \<Rightarrow> string list \<Rightarrow> diag" where
  "diag_keys l m s ks =
     \<lparr>line = l, column = 1, message = m, severity = Some s, validValues = None,
      validKeys = Some ks\<rparr>"

definition diag_values :: "nat \<Rightarrow> msg \<Rightarrow> severity_level \<Rightarrow> string list \<Rightarrow> diag" where
  "diag_values l m s vs =
     \<lparr>line = l, column = 1, message = m, severity = Some s, validValues = Some vs,
      validKeys = None\<rparr>"

text \<open>
  Lines 1147 to 1158. \<open>v.split('[')[0]\<close> is \<open>v\<close> up to its first \<open>[\<close>, and all of \<open>v\<close> when it
  has none.
\<close>

definition enum_accepts :: "string list \<Rightarrow> string \<Rightarrow> bool" where
  "enum_accepts vals config =
     (config \<in> set vals \<or>
      list_ex (\<lambda>v. startsWith config (takeWhile (\<lambda>c. c \<noteq> CHR ''['') v)) vals)"

text \<open>
  The diagnostics pushed so far and a raise: \<open>and_then a b\<close> is \<open>a\<close> followed by \<open>b\<close>, and
  the first raise when there is one.
\<close>

definition and_then :: "halt + diag list \<Rightarrow> halt + diag list \<Rightarrow> halt + diag list" where
  "and_then a b =
     (case a of
        Inl e \<Rightarrow> Inl e
      | Inr x \<Rightarrow> (case b of Inl e \<Rightarrow> Inl e | Inr y \<Rightarrow> Inr (x @ y)))"

fun for_each :: "('a \<Rightarrow> halt + diag list) \<Rightarrow> 'a list \<Rightarrow> halt + diag list" where
  "for_each f [] = Inr []"
| "for_each f (x # xs) = and_then (f x) (for_each f xs)"

text \<open>
  With \<open>schema.values\<close> a function, \<open>schema.values.includes(config)\<close> raises TypeError.
\<close>

definition enum_diags :: "string \<Rightarrow> string \<Rightarrow> schema \<Rightarrow> string list \<Rightarrow> halt + diag list" where
  "enum_diags config key sch lines =
     (case sch_values sch of
        Absent \<Rightarrow> Inr []
      | NotAnArray \<Rightarrow> Inl (TypeError 0)
      | Values vals \<Rightarrow>
          Inr (if enum_accepts vals config then []
               else [diag_values (findKeyLine lines key 0) (InvalidValue config key)
                       Warning vals]))"

definition sub_schema :: "(string \<times> schema) list \<Rightarrow> string \<Rightarrow> schema option" where
  \<comment> \<open>\<open>schema.children[subKey] || schema.children['*']\<close>\<close>
  "sub_schema cs subKey =
     (case lookup_prop cs subKey of Some s \<Rightarrow> Some s | None \<Rightarrow> lookup_prop cs ''*'')"

text \<open>
  \<open>validateNestedConfig(config, key, schema, lines, errors, context)\<close> by the type of
  \<open>config\<close>; the diagnostics it pushes are its result. \<open>nested_entries\<close> is the loop over
  \<open>Object.keys(config)\<close> of lines 1162 to 1180, \<open>cs\<close> being \<open>schema.children\<close>.
\<close>

fun validateNestedConfig ::
    "jsval \<Rightarrow> string \<Rightarrow> schema \<Rightarrow> string list \<Rightarrow> string \<Rightarrow> halt + diag list"
  and nested_entries ::
    "(string \<times> jsval) list \<Rightarrow> (string \<times> schema) list \<Rightarrow> string \<Rightarrow> string list \<Rightarrow> string
       \<Rightarrow> halt + diag list"
  where
  "validateNestedConfig JNull key sch lines context = Inr []"
| "validateNestedConfig (JArr xs ps) key sch lines context = Inr []"
| "validateNestedConfig (JStr config) key sch lines context =
     (if key \<in> set freeFormKeys then Inr [] else enum_diags config key sch lines)"
| "validateNestedConfig (JObj kvs) key sch lines context =
     (if key \<in> set freeFormKeys then Inr []
      else (case sch_children sch of
              None \<Rightarrow> Inr []
            | Some cs \<Rightarrow> nested_entries kvs cs key lines context))"
| "validateNestedConfig (JBool b) key sch lines context = Inr []"
| "validateNestedConfig (JNum m k) key sch lines context = Inr []"
| "nested_entries [] cs key lines context = Inr []"
| "nested_entries ((subKey, v) # r) cs key lines context =
     and_then
       (if startsWith subKey ''x-'' then Inr []
        else if subKey \<in> set freeFormKeys then Inr []
        else (case sub_schema cs subKey of
                None \<Rightarrow>
                  Inr [diag_keys (findKeyLine lines subKey 0)
                         (UnknownNestedKey subKey (context @ ''.'' @ key)) Warning
                         (filter (\<lambda>k. k \<noteq> ''*'') (map fst cs))]
              | Some subSchema \<Rightarrow>
                  validateNestedConfig v subKey subSchema lines (context @ ''.'' @ key)))
       (nested_entries r cs key lines context)"

subsection \<open>validateServices\<close>

definition missing_image_or_build :: "jsval \<Rightarrow> bool" where
  \<comment> \<open>\<open>!serviceConfig.image && !serviceConfig.build\<close>\<close>
  "missing_image_or_build serviceConfig =
     (\<not> truthy_opt (js_get serviceConfig ''image'') \<and>
      \<not> truthy_opt (js_get serviceConfig ''build''))"

definition service_key_diags ::
  "string list \<Rightarrow> string \<Rightarrow> string \<times> jsval \<Rightarrow> halt + diag list" where
  "service_key_diags lines serviceName entry =
     (let key = fst entry; v = snd entry in
      if startsWith key ''x-'' then Inr []
      else (case lookup_prop (children_of serviceSchema) key of
              None \<Rightarrow>
                Inr [diag_keys (findKeyLine lines key (findKeyLine lines serviceName 0))
                       (UnknownServiceKey key serviceName) Error
                       (map fst (children_of serviceSchema))]
            | Some sch \<Rightarrow>
                if \<not> isArray v \<and> key \<notin> set freeFormKeys
                then validateNestedConfig v key sch lines serviceName
                else Inr []))"

definition service_diags :: "string list \<Rightarrow> string \<times> jsval \<Rightarrow> halt + diag list" where
  "service_diags lines entry =
     (let serviceName = fst entry; serviceConfig = snd entry in
      if \<not> is_object serviceConfig then Inr []
      else and_then
             (Inr (if missing_image_or_build serviceConfig
                   then [mk_diag (findKeyLine lines serviceName 0) 1
                           (MissingImageOrBuild serviceName) (Some Error)]
                   else []))
             (for_each (service_key_diags lines serviceName) (js_entries serviceConfig)))"

definition validateServices :: "jsval \<Rightarrow> string list \<Rightarrow> halt + diag list" where
  "validateServices services lines = for_each (service_diags lines) (js_entries services)"

subsection \<open>validateSection\<close>

definition section_key_diags ::
  "string list \<Rightarrow> string \<Rightarrow> (string \<times> schema) list \<Rightarrow> string \<Rightarrow> string \<Rightarrow> diag list" where
  "section_key_diags lines sectionName schemaChildren itemName key =
     (if startsWith key ''x-'' then []
      else if key \<in> set freeFormKeys then []
      else if key = ''name'' then []
      else if key = ''external'' then []
      else if schemaChildren \<noteq> [] \<and> lookup_prop schemaChildren key = None
      then [diag_keys (findKeyLine lines key (findKeyLine lines itemName 0))
              (UnknownSectionKey key sectionName itemName) Error (map fst schemaChildren)]
      else [])"

definition section_item_diags ::
  "string list \<Rightarrow> string \<Rightarrow> (string \<times> schema) list \<Rightarrow> string \<times> jsval \<Rightarrow> diag list" where
  "section_item_diags lines sectionName schemaChildren entry =
     (let itemName = fst entry; itemConfig = snd entry in
      if \<not> is_object itemConfig then []
      else concat (map (section_key_diags lines sectionName schemaChildren itemName)
                     (js_keys itemConfig)))"

definition validateSection :: "jsval \<Rightarrow> string list \<Rightarrow> string \<Rightarrow> schema \<Rightarrow> diag list" where
  "validateSection section lines sectionName sch =
     concat (map (section_item_diags lines sectionName (children_of sch)) (js_entries section))"

subsection \<open>validate\<close>

definition top_level_key_diags :: "string list \<Rightarrow> string \<Rightarrow> diag list" where
  "top_level_key_diags lines key =
     (if startsWith key ''x-'' then []
      else if lookup_prop DockerComposeSchema key \<noteq> None then []
      else (let lineNum = findKeyLine lines key 0 in
            if key \<in> set serviceOnlyKeys
            then [mk_diag lineNum 1 (ServiceKeyAtRoot key) (Some Error)]
            else if key \<in> set deployOnlyKeys
            then [mk_diag lineNum 1 (DeployKeyAtRoot key) (Some Error)]
            else [diag_keys lineNum (UnknownTopLevelKey key) Error
                    (filter (\<lambda>k. k \<noteq> ''x'') (map fst DockerComposeSchema))]))"

text \<open>
  Lines 1020 to 1033. \<open>String(parsedData.version)\<close> can raise (see \<open>js_String\<close>), and
  \<open>validate\<close> with it: \<open>TypeError 0\<close>, the raise being at no line of the text.
\<close>

definition version_diags :: "string list \<Rightarrow> jsval \<Rightarrow> halt + diag list" where
  "version_diags lines parsedData =
     (case js_get parsedData ''version'' of
        None \<Rightarrow> Inr []
      | Some v \<Rightarrow>
          if \<not> truthy v then Inr []
          else (case js_String v of
                  None \<Rightarrow> Inl (TypeError 0)
                | Some str \<Rightarrow>
                    let validVersions =
                          (case sch_values (schema_at DockerComposeSchema ''version'')
                             of Values vs \<Rightarrow> vs | _ \<Rightarrow> []);
                        version = filter (\<lambda>c. c \<noteq> CHR 0x27 \<and> c \<noteq> CHR 0x22) str
                    in Inr (if version \<in> set validVersions then []
                            else [diag_values (findKeyLine lines ''version'' 0)
                                    (InvalidVersion version) Warning validVersions])))"

definition section_diags :: "string list \<Rightarrow> jsval \<Rightarrow> string \<Rightarrow> diag list" where
  \<comment> \<open>\<open>if (parsedData.networks && typeof parsedData.networks === 'object') ...\<close>\<close>
  "section_diags lines parsedData name =
     (case js_get parsedData name of
        None \<Rightarrow> []
      | Some sec \<Rightarrow>
          if is_object sec then validateSection sec lines name (section_schema name) else [])"

definition services_diags :: "string list \<Rightarrow> jsval \<Rightarrow> halt + diag list" where
  "services_diags lines parsedData =
     (case js_get parsedData ''services'' of
        None \<Rightarrow> Inr []
      | Some services \<Rightarrow>
          if is_object services then validateServices services lines else Inr [])"

definition no_keys :: "jsval \<Rightarrow> bool" where
  \<comment> \<open>\<open>!parsedData || Object.keys(parsedData).length === 0\<close>\<close>
  "no_keys parsedData = (\<not> truthy parsedData \<or> js_keys parsedData = [])"

definition validate :: "string \<Rightarrow> jsval \<Rightarrow> halt + diag list" where
  "validate text parsedData =
     (let lines = split_lines text in
      if no_keys parsedData then Inr []
      else and_then (Inr (concat (map (top_level_key_diags lines) (js_keys parsedData))))
          (and_then (version_diags lines parsedData)
          (and_then (services_diags lines parsedData)
             (Inr (section_diags lines parsedData ''networks''
                   @ section_diags lines parsedData ''volumes''
                   @ section_diags lines parsedData ''configs''
                   @ section_diags lines parsedData ''secrets'')))))"

section \<open>AutocompleteEngine\<close>

definition serviceKeyPriority :: "string list" where
  "serviceKeyPriority =
     [''image'', ''build'', ''container_name'', ''command'', ''entrypoint'',
      ''environment'', ''env_file'', ''ports'', ''expose'', ''volumes'',
      ''networks'', ''depends_on'', ''deploy'', ''restart'', ''healthcheck'',
      ''secrets'', ''configs'', ''labels'', ''logging'', ''working_dir'',
      ''user'', ''privileged'', ''cap_add'', ''cap_drop'', ''devices'',
      ''dns'', ''dns_search'', ''extra_hosts'', ''hostname'', ''domainname'',
      ''init'', ''pid'', ''ipc'', ''shm_size'', ''stdin_open'', ''tty'',
      ''stop_signal'', ''stop_grace_period'', ''security_opt'', ''sysctls'',
      ''ulimits'', ''userns_mode'', ''platform'', ''runtime'', ''isolation'',
      ''network_mode'', ''tmpfs'', ''read_only'', ''mac_address'',
      ''cgroup_parent'', ''links'', ''external_links'', ''profiles'',
      ''pull_policy'', ''scale'', ''storage_opt'']"

definition deployKeyPriority :: "string list" where
  "deployKeyPriority =
     [''mode'', ''replicas'', ''placement'', ''resources'', ''restart_policy'',
      ''update_config'', ''rollback_config'', ''labels'', ''endpoint_mode'']"

definition topLevelKeyPriority :: "string list" where
  "topLevelKeyPriority =
     [''version'', ''services'', ''networks'', ''volumes'', ''secrets'', ''configs'']"

definition networkKeyPriority :: "string list" where
  "networkKeyPriority =
     [''driver'', ''driver_opts'', ''external'', ''name'', ''attachable'',
      ''internal'', ''ipam'', ''labels'', ''enable_ipv6'']"

definition volumeKeyPriority :: "string list" where
  "volumeKeyPriority = [''driver'', ''driver_opts'', ''external'', ''name'', ''labels'']"

definition secretKeyPriority :: "string list" where
  "secretKeyPriority = [''file'', ''external'', ''name'', ''template_driver'']"

definition healthcheckKeyPriority :: "string list" where
  "healthcheckKeyPriority =
     [''test'', ''interval'', ''timeout'', ''retries'', ''start_period'', ''disable'']"

definition resourcesKeyPriority :: "string list" where
  "resourcesKeyPriority = [''limits'', ''reservations'']"

definition placementKeyPriority :: "string list" where
  "placementKeyPriority = [''constraints'', ''preferences'', ''max_replicas_per_node'']"

definition updateConfigKeyPriority :: "string list" where
  "updateConfigKeyPriority =
     [''parallelism'', ''delay'', ''failure_action'', ''monitor'', ''max_failure_ratio'',
      ''order'']"

definition restartPolicyKeyPriority :: "string list" where
  "restartPolicyKeyPriority = [''condition'', ''delay'', ''max_attempts'', ''window'']"

definition buildKeyPriority :: "string list" where
  "buildKeyPriority =
     [''context'', ''dockerfile'', ''args'', ''target'', ''cache_from'', ''labels'',
      ''network'', ''shm_size'']"

definition loggingKeyPriority :: "string list" where
  "loggingKeyPriority = [''driver'', ''options'']"

subsection \<open>Array.prototype.sort\<close>

text \<open>
  \<open>xs.sort(cmp)\<close> is stable. With a comparator that orders the elements consistently its
  result is the one stable arrangement, which insertion from the right computes: an
  element goes before the first later element it does not compare greater than.
\<close>

fun insert_sorted :: "('a \<Rightarrow> 'a \<Rightarrow> int) \<Rightarrow> 'a \<Rightarrow> 'a list \<Rightarrow> 'a list" where
  "insert_sorted cmp x [] = [x]"
| "insert_sorted cmp x (y # ys) =
     (if cmp x y \<le> 0 then x # y # ys else y # insert_sorted cmp x ys)"

definition js_sort :: "('a \<Rightarrow> 'a \<Rightarrow> int) \<Rightarrow> 'a list \<Rightarrow> 'a list" where
  "js_sort cmp xs = foldr (insert_sorted cmp) xs []"

subsection \<open>getContext\<close>

record cursor_context =
  path :: "string list"
  ctx_indent :: int

text \<open>
  The match of \<^verbatim>\<open>^-?\s*([^:]+):\<close> on a trimmed line, and the trimmed capture. The line must
  have a colon with at least one character before it. Of the text \<open>pre\<close> before the first
  colon, the expression skips a leading dash and the white space after it, unless
  nothing would be left for the capture: then it gives back the last white space
  character, or the dash itself when \<open>pre\<close> is the dash alone. Trimmed, the capture is
  \<open>pre\<close> without its leading dash, trimmed; or the dash.
\<close>

definition context_key :: "string \<Rightarrow> string option" where
  "context_key trimmed =
     (let pre = takeWhile (\<lambda>c. c \<noteq> CHR '':'') trimmed in
      if CHR '':'' \<notin> set trimmed \<or> pre = [] then None
      else if pre = ''-'' then Some ''-''
      else Some (trim (if startsWith pre ''-'' then tl pre else pre)))"

fun pop_context :: "int \<Rightarrow> (int \<times> string) list \<Rightarrow> (int \<times> string) list" where
  "pop_context i (f # g # rest) =
     (if fst f \<ge> i then pop_context i (g # rest) else f # g # rest)"
| "pop_context i fs = fs"

text \<open>
  The body of the loop over the lines before the cursor; \<open>indentStack\<close> with its top as
  the head of the list.
\<close>

definition context_line :: "string \<Rightarrow> (int \<times> string) list \<Rightarrow> (int \<times> string) list" where
  "context_line l indentStack =
     (let trimmed = trim l in
      if trimmed = [] \<or> startsWith trimmed ''#'' then indentStack
      else (case context_key trimmed of
              None \<Rightarrow> indentStack
            | Some key \<Rightarrow>
                let ind = search_nonws l;
                    afterColon = trim (drop (nat (indexOf trimmed (CHR '':'')) + 1) trimmed);
                    popped = pop_context ind indentStack
                in if is_block_marker afterColon then (ind, key) # popped else popped))"

text \<open>
  \<open>getContext(lines, cursorLine)\<close>. The loop reads \<open>lines[i]\<close> for every \<open>i < cursorLine - 1\<close>;
  past the end of \<open>lines\<close> that is \<open>undefined\<close>, and \<open>line.trim()\<close> raises.
\<close>

definition current_line :: "string list \<Rightarrow> nat \<Rightarrow> string" where
  \<comment> \<open>\<open>lines[cursorLine - 1] || ''\<close>\<close>
  "current_line lines cursorLine =
     (if 1 \<le> cursorLine \<and> cursorLine \<le> length lines then lines ! (cursorLine - 1) else [])"

definition getContext :: "string list \<Rightarrow> nat \<Rightarrow> halt + cursor_context" where
  "getContext lines cursorLine =
     (if cursorLine - 1 > length lines then Inl (TypeError (Suc (length lines)))
      else
        let indentStack = foldl (\<lambda>st l. context_line l st) [(- 1, ''root'')]
                            (take (cursorLine - 1) lines);
            currentLine = current_line lines cursorLine;
            currentIndent = (if search_nonws currentLine < 0 then int (length currentLine)
                             else search_nonws currentLine);
            popped = pop_context currentIndent indentStack
        in Inr \<lparr>path = rev (map snd (butlast popped)),
                ctx_indent = (case popped of [] \<Rightarrow> - 1 | f # r \<Rightarrow> fst f)\<rparr>)"

subsection \<open>getKeySuggestions and getValueSuggestions\<close>

text \<open>
  A suggestion is \<open>{label, type, description}\<close>; the model keeps \<open>label\<close> and \<open>type\<close> (as
  \<open>kind\<close>), the description being a text of the schema table.
\<close>

datatype suggestion_kind = KeyKind | ValueKind

record suggestion =
  label :: string
  kind :: suggestion_kind

text \<open>
  \<open>sortByPriority(keys, priorityList)\<close>. \<open>localeCompare\<close>, the host's collation of two
  strings, is the parameter \<open>lc\<close>.
\<close>

definition index_in :: "string list \<Rightarrow> string \<Rightarrow> int" where
  \<comment> \<open>\<open>priorityList.indexOf(a)\<close>\<close>
  "index_in xs a = (if a \<in> set xs then int (length (takeWhile (\<lambda>x. x \<noteq> a) xs)) else - 1)"

definition priority_cmp ::
  "(string \<Rightarrow> string \<Rightarrow> int) \<Rightarrow> string list \<Rightarrow> string \<Rightarrow> string \<Rightarrow> int" where
  "priority_cmp lc priorityList a b =
     (let aIdx = index_in priorityList a; bIdx = index_in priorityList b in
      if aIdx \<noteq> - 1 \<and> bIdx \<noteq> - 1 then aIdx - bIdx
      else if aIdx \<noteq> - 1 then - 1
      else if bIdx \<noteq> - 1 then 1
      else lc a b)"

definition sortByPriority ::
  "(string \<Rightarrow> string \<Rightarrow> int) \<Rightarrow> string list \<Rightarrow> string list \<Rightarrow> string list" where
  "sortByPriority lc keys priorityList = js_sort (priority_cmp lc priorityList) keys"

text \<open>
  The variable \<open>schema\<close> during the walk along the path: the table \<open>DockerComposeSchema\<close>
  itself (\<open>Top\<close>), a node of it, or \<open>undefined\<close> after a key that neither \<open>children[key]\<close> nor
  \<open>children['*']\<close> has. At a node without \<open>children\<close> the source steps to \<open>schema[key]\<close> when
  that is truthy: to a field of the node or an inherited property, none of which has
  \<open>children\<close>, nor has anything reached from them; as only \<open>children\<close> is read afterwards,
  the model stays at the node.
\<close>

datatype nav = Top | Node schema | Undefined

fun nav_step :: "nav \<Rightarrow> string \<Rightarrow> nav" where
  "nav_step Top key =
     (case lookup_prop DockerComposeSchema key of Some s \<Rightarrow> Node s | None \<Rightarrow> Top)"
| "nav_step (Node s) key =
     (case sch_children s of
        None \<Rightarrow> Node s
      | Some cs \<Rightarrow> (case sub_schema cs key of Some c \<Rightarrow> Node c | None \<Rightarrow> Undefined))"
| "nav_step Undefined key = Undefined"

definition navigate :: "string list \<Rightarrow> nav" where
  "navigate p = foldl nav_step Top p"

definition priority_for :: "string list \<Rightarrow> string list" where
  "priority_for p =
     (let lastKey = (if p = [] then [] else last p) in
      if p = [] then topLevelKeyPriority
      else if hd p = ''services'' \<and> length p \<ge> 2 then
        (if length p = 2 then serviceKeyPriority
         else if lastKey = ''deploy'' then deployKeyPriority
         else if lastKey = ''healthcheck'' then healthcheckKeyPriority
         else if lastKey = ''resources'' then resourcesKeyPriority
         else if lastKey = ''placement'' then placementKeyPriority
         else if lastKey = ''update_config'' \<or> lastKey = ''rollback_config''
         then updateConfigKeyPriority
         else if lastKey = ''restart_policy'' then restartPolicyKeyPriority
         else if lastKey = ''build'' then buildKeyPriority
         else if lastKey = ''logging'' then loggingKeyPriority
         else if lastKey = ''limits'' \<or> lastKey = ''reservations''
         then [''cpus'', ''memory'', ''pids'', ''generic_resources'']
         else serviceKeyPriority)
      else if hd p = ''networks'' \<and> length p \<ge> 2 then networkKeyPriority
      else if hd p = ''volumes'' \<and> length p \<ge> 2 then volumeKeyPriority
      else if (hd p = ''secrets'' \<or> hd p = ''configs'') \<and> length p \<ge> 2 then secretKeyPriority
      else topLevelKeyPriority)"

definition key_suggestion :: "string \<Rightarrow> suggestion" where
  "key_suggestion k = \<lparr>label = k, kind = KeyKind\<rparr>"


definition getKeySuggestions :: "(string \<Rightarrow> string \<Rightarrow> int) \<Rightarrow> cursor_context \<Rightarrow> suggestion list" where
  "getKeySuggestions lc ctx =
     (let priorityList = priority_for (path ctx) in
      case navigate (path ctx) of
        Undefined \<Rightarrow>
          map key_suggestion
            (sortByPriority lc (filter (\<lambda>k. k \<noteq> ''x'') (map fst DockerComposeSchema))
               priorityList)
      | Node s \<Rightarrow>
          (case sch_children s of
             Some cs \<Rightarrow>
               map key_suggestion
                 (sortByPriority lc (filter (\<lambda>k. k \<noteq> ''*'') (map fst cs)) priorityList)
           | None \<Rightarrow> [])
      | Top \<Rightarrow> [])"


subsection \<open>getSuggestions\<close>










section \<open>Notions used in the statements\<close>

text \<open>The indentation-jump message.\<close>

definition is_jump :: "msg \<Rightarrow> bool" where
  "is_jump m = (case m of IndentationIncreased d u \<Rightarrow> True | _ \<Rightarrow> False)"


definition line_tail :: "nat \<Rightarrow> diag list \<Rightarrow> bool" where
  "line_tail n ds = list_all (\<lambda>d. line d = n \<and> \<not> is_jump (message d)) ds"

text \<open>
  The loop over the lines \<open>xs\<close> of a text in which the lines \<open>ys\<close> follow them (the
  lookahead of a line of \<open>xs\<close> reads on into \<open>ys\<close>): the state in which the loop reaches the
  first line of \<open>ys\<close>.
\<close>

fun run_lines :: "nat \<Rightarrow> string list \<Rightarrow> string list \<Rightarrow> pstate \<Rightarrow> halt + pstate" where
  "run_lines n [] ys st = Inr st"
| "run_lines n (l # xs) ys st =
     (case parse_line (Suc n) l (xs @ ys) st of
        Inl e \<Rightarrow> Inl e
      | Inr st' \<Rightarrow> run_lines (Suc n) xs ys st')"






text \<open>
  The discipline of the frame stack: the stack is not empty, the path of every frame
  denotes a container (an object or an array) of the tree, and the path of a frame
  extends the path of the frame below it.
\<close>

definition container_at :: "jsval \<Rightarrow> pelem list \<Rightarrow> bool" where
  "container_at root p = (case get_at root p of None \<Rightarrow> False | Some t \<Rightarrow> is_object t)"

fun chain :: "jsval \<Rightarrow> frame list \<Rightarrow> bool" where
  "chain root [] = False"
| "chain root [f] = container_at root (obj f)"
| "chain root (f # g # r) =
     (container_at root (obj f) \<and> (\<exists>s. obj f = obj g @ s) \<and> chain root (g # r))"

definition frames_ok :: "pstate \<Rightarrow> bool" where
  "frames_ok st = chain (result st) (stack st)"

section \<open>Properties of the parser\<close>

subsection \<open>What one line does to the diagnostics and the indentation state\<close>

lemma content_search_nonneg: "is_content l \<Longrightarrow> 0 \<le> search_nonws l"
proof -
  assume c: "is_content l"
  then have "trim l \<noteq> []" by (simp add: is_content_def)
  then have "dropWhile is_ws l \<noteq> []"
    unfolding trim_def by (cases "dropWhile is_ws l") simp_all
  then have "length (takeWhile is_ws l) < length l"
    by (metis length_append less_add_same_cancel1 length_greater_0_conv takeWhile_dropWhile_id)
  then show ?thesis by (simp add: search_nonws_def Let_def)
qed

lemma store_frame:
  "store n st k v = Inr st' \<Longrightarrow>
     st_errors st' = st_errors st \<and> indentUnit st' = indentUnit st \<and>
     lastIndent st' = lastIndent st \<and> stack st' = stack st"
  by (auto simp: store_def Let_def split: option.splits sum.splits)

lemma append_frame:
  "append n st v = Inr st' \<Longrightarrow>
     st_errors st' = st_errors st \<and> indentUnit st' = indentUnit st \<and>
     lastIndent st' = lastIndent st \<and> stack st' = stack st"
  by (auto simp: append_def Let_def split: option.splits sum.splits)

lemma push_frame_simps [simp]:
  "st_errors (push_frame i p st) = st_errors st"
  "indentUnit (push_frame i p st) = indentUnit st"
  "lastIndent (push_frame i p st) = lastIndent st"
  "result (push_frame i p st) = result st"
  by (simp_all add: push_frame_def)

lemma list_item_frame:
  "list_item n ind t target st = Inr st' \<Longrightarrow>
     st_errors st' = st_errors st \<and> indentUnit st' = indentUnit st \<and>
     lastIndent st' = lastIndent st"
  by (auto simp: list_item_def Let_def split: if_splits sum.splits dest: append_frame)

lemma key_value_frame:
  "key_value n ind t rest st = Inr st' \<Longrightarrow>
     (st_errors st' = st_errors st \<or>
      st_errors st' = st_errors st @ [mk_diag n 1 InvalidYamlSyntax None]) \<and>
     indentUnit st' = indentUnit st \<and> lastIndent st' = lastIndent st"
  by (auto simp: key_value_def Let_def split: if_splits sum.splits prod.splits dest: store_frame)


lemma parse_line_content:
  assumes "parse_line n l rest st = Inr st'" "is_content l"
  shows "\<exists>extra. st_errors st' =
            st_errors st @ tab_diags n l
              @ multiple_diags n (new_unit (indentUnit st) (search_nonws l)) (search_nonws l)
              @ jump_diags n (new_unit (indentUnit st) (search_nonws l)) (lastIndent st) (search_nonws l)
              @ extra \<and> line_tail n extra"
    and "indentUnit st' = new_unit (indentUnit st) (search_nonws l)"
    and "lastIndent st' = search_nonws l"
proof -
  have nn: "search_nonws l \<noteq> - 1" using content_search_nonneg[OF assms(2)] by simp
  let ?st1 = "check_indent n l st"
  let ?st2 = "?st1\<lparr>stack := pop_frames (search_nonws l) (stack ?st1)\<rparr>"
  obtain target where t: "get_at (result ?st2) (top_path (stack ?st2)) = Some target"
    using assms nn by (auto simp: parse_line_def Let_def split: option.splits)
  let ?st3 = "(if startsWith (trim l) ''-'' \<and> \<not> isArray target
                then ?st2\<lparr>st_errors := st_errors ?st2 @ [mk_diag n 1 ListParentNotList (Some Error)]\<rparr>
                else ?st2)"
  have e3: "st_errors ?st3 = st_errors ?st1 \<or>
            st_errors ?st3 = st_errors ?st1 @ [mk_diag n 1 ListParentNotList (Some Error)]"
    by simp
  have u3: "indentUnit ?st3 = indentUnit ?st1" "lastIndent ?st3 = lastIndent ?st1" by simp_all
  have body: "(if startsWith (trim l) ''- '' then
                      (if \<not> isArray target then Inr ?st3
                       else list_item n (search_nonws l) (trim l) target ?st3)
                    else if trim l = ''-'' then
                      (if isArray target then
                         (case append n ?st3 (JObj []) of
                            Inl e \<Rightarrow> Inl e
                          | Inr st' \<Rightarrow>
                              Inr (push_frame (search_nonws l)
                                     (top_path (stack ?st3) @ [PIdx (array_length target)]) st'))
                       else Inr ?st3)
                    else key_value n (search_nonws l) (trim l) rest ?st3) = Inr st'"
    using assms nn t by (simp add: parse_line_def Let_def)
  have fin: "(st_errors st' = st_errors ?st3 \<or>
      st_errors st' = st_errors ?st3 @ [mk_diag n 1 InvalidYamlSyntax None]) \<and>
     indentUnit st' = indentUnit ?st3 \<and> lastIndent st' = lastIndent ?st3"
    using body
    by (auto split: if_splits sum.splits dest!: list_item_frame key_value_frame append_frame)
  have e1: "st_errors ?st1 = st_errors st @ tab_diags n l
              @ multiple_diags n (new_unit (indentUnit st) (search_nonws l)) (search_nonws l)
              @ jump_diags n (new_unit (indentUnit st) (search_nonws l)) (lastIndent st) (search_nonws l)"
    and u1: "indentUnit ?st1 = new_unit (indentUnit st) (search_nonws l)"
    and l1: "lastIndent ?st1 = search_nonws l"
    by (simp_all add: check_indent_def Let_def)
  show "indentUnit st' = new_unit (indentUnit st) (search_nonws l)"
    using fin u3 u1 by simp
  show "lastIndent st' = search_nonws l" using fin u3 l1 by simp
  have "\<exists>extra. st_errors st' = st_errors ?st1 @ extra \<and> line_tail n extra"
  proof -
    from e3 fin consider
        "st_errors st' = st_errors ?st1 @ []"
      | "st_errors st' = st_errors ?st1 @ [mk_diag n 1 ListParentNotList (Some Error)]"
      | "st_errors st' = st_errors ?st1 @ [mk_diag n 1 InvalidYamlSyntax None]"
      | "st_errors st' = st_errors ?st1 @ [mk_diag n 1 ListParentNotList (Some Error), mk_diag n 1 InvalidYamlSyntax None]"
      by auto
    then show ?thesis
      by cases (rule exI, rule conjI, assumption, simp add: line_tail_def mk_diag_def is_jump_def)+
  qed
  then show "\<exists>extra. st_errors st' =
            st_errors st @ tab_diags n l
              @ multiple_diags n (new_unit (indentUnit st) (search_nonws l)) (search_nonws l)
              @ jump_diags n (new_unit (indentUnit st) (search_nonws l)) (lastIndent st) (search_nonws l)
              @ extra \<and> line_tail n extra"
    using e1 by auto
qed

lemma parse_line_skip: "\<not> is_content l \<Longrightarrow> parse_line n l rest st = Inr st"
  by (simp add: parse_line_def Let_def)


lemma run_lines_all: "run_lines n xs [] st = parse_lines n xs st"
  by (induction xs arbitrary: n st) (auto split: sum.splits)





lemma parse_line_errors_range:
  "parse_line n l rest st = Inr st' \<Longrightarrow>
     \<exists>new. st_errors st' = st_errors st @ new \<and> list_all (\<lambda>d. line d = n) new"
proof (cases "is_content l")
  case False
  assume "parse_line n l rest st = Inr st'"
  then show ?thesis using False by (simp add: parse_line_skip)
next
  case True
  assume p: "parse_line n l rest st = Inr st'"
  from parse_line_content(1)[OF p True] obtain extra where
    e: "st_errors st' =
            st_errors st @ tab_diags n l
              @ multiple_diags n (new_unit (indentUnit st) (search_nonws l)) (search_nonws l)
              @ jump_diags n (new_unit (indentUnit st) (search_nonws l)) (lastIndent st) (search_nonws l)
              @ extra" and t: "line_tail n extra" by blast
  have "list_all (\<lambda>d. line d = n) (tab_diags n l
              @ multiple_diags n (new_unit (indentUnit st) (search_nonws l)) (search_nonws l)
              @ jump_diags n (new_unit (indentUnit st) (search_nonws l)) (lastIndent st) (search_nonws l)
              @ extra)"
    using t by (auto simp: tab_diags_def multiple_diags_def jump_diags_def mk_diag_def
        line_tail_def list_all_iff)
  then show ?thesis using e by blast
qed

lemma run_lines_errors_range:
  "run_lines n xs ys st = Inr st' \<Longrightarrow>
     \<exists>new. st_errors st' = st_errors st @ new \<and>
           list_all (\<lambda>d. n < line d \<and> line d \<le> n + length xs) new"
proof (induction xs arbitrary: n st)
  case Nil
  then show ?case by simp
next
  case (Cons l xs)
  then obtain s where s: "parse_line (Suc n) l (xs @ ys) st = Inr s"
    and r: "run_lines (Suc n) xs ys s = Inr st'"
    by (auto split: sum.splits)
  from parse_line_errors_range[OF s] obtain a where
    a: "st_errors s = st_errors st @ a" "list_all (\<lambda>d. line d = Suc n) a" by blast
  from Cons.IH[OF r] obtain b where
    b: "st_errors st' = st_errors s @ b"
       "list_all (\<lambda>d. Suc n < line d \<and> line d \<le> Suc n + length xs) b" by blast
  have "st_errors st' = st_errors st @ (a @ b)" using a b by simp
  moreover have "list_all (\<lambda>d. n < line d \<and> line d \<le> n + length (l # xs)) (a @ b)"
    using a(2) b(2) by (auto simp: list_all_iff)
  ultimately show ?case by blast
qed

subsection \<open>The paths of the frames\<close>

text \<open>
  Every step of the loop keeps the discipline of the frame stack, so the path of the top
  frame always denotes a container and no run of \<open>parse\<close> ends in \<open>LostFrame\<close>: \<open>parse\<close>
  returns a document unless the source raises or assigns outside the tree model.
\<close>

lemma map_of_upd:
  "map_of (map (\<lambda>(k', c). if k' = k then (k', f c) else (k', c)) kvs) k =
     map_option f (map_of kvs k)"
  by (induction kvs) auto

lemma put_at_keeps_container: "is_object v \<Longrightarrow> p \<noteq> [] \<Longrightarrow> is_object (put_at p new v)"
  by (cases "(p, new, v)" rule: put_at.cases) auto

lemma get_put_prefix:
  "get_at v q = Some c \<Longrightarrow> get_at (put_at (q @ s) new v) q = Some (put_at s new c)"
proof (induction q arbitrary: v)
  case Nil
  then show ?case by simp
next
  case (Cons e q)
  show ?case
  proof (cases e)
    case (PKey k)
    show ?thesis
    proof (cases v)
      case (JObj kvs)
      with Cons PKey show ?thesis by (auto simp: map_of_upd split: option.splits)
    next
      case (JArr xs ps)
      with Cons PKey show ?thesis by (auto simp: map_of_upd split: option.splits)
    qed (use Cons PKey in auto)
  next
    case (PIdx i)
    show ?thesis
    proof (cases v)
      case (JArr xs ps)
      with Cons PIdx show ?thesis by (auto split: if_splits)
    qed (use Cons PIdx in auto)
  qed
qed

lemma get_put_below:
  "get_at v p = Some c \<Longrightarrow> get_at (put_at p new v) (p @ s) = get_at new s"
proof (induction p arbitrary: v)
  case Nil
  then show ?case by simp
next
  case (Cons e q)
  show ?case
  proof (cases e)
    case (PKey k)
    show ?thesis
    proof (cases v)
      case (JObj kvs)
      with Cons PKey show ?thesis by (auto simp: map_of_upd split: option.splits)
    next
      case (JArr xs ps)
      with Cons PKey show ?thesis by (auto simp: map_of_upd split: option.splits)
    qed (use Cons PKey in auto)
  next
    case (PIdx i)
    show ?thesis
    proof (cases v)
      case (JArr xs ps)
      with Cons PIdx show ?thesis by (auto split: if_splits)
    qed (use Cons PIdx in auto)
  qed
qed

lemma container_put:
  assumes "get_at root p = Some t" "is_object new" "container_at root q" "p = q @ s"
  shows "container_at (put_at p new root) q"
proof -
  obtain c where c: "get_at root q = Some c" "is_object c"
    using assms(3) by (auto simp: container_at_def split: option.splits)
  have "get_at (put_at (q @ s) new root) q = Some (put_at s new c)"
    using get_put_prefix[OF c(1)] .
  moreover have "is_object (put_at s new c)"
    using c(2) assms(2) put_at_keeps_container[of c s new] by (cases s) auto
  ultimately show ?thesis using assms(4) by (simp add: container_at_def)
qed

lemma chain_prefixes:
  "chain root fs \<Longrightarrow> f \<in> set fs \<Longrightarrow> \<exists>s. top_path fs = obj f @ s"
proof (induction root fs rule: chain.induct)
  case (1 root)
  then show ?case by simp
next
  case (2 root g)
  then show ?case by (simp add: top_path_def)
next
  case (3 root a b r)
  show ?case
  proof (cases "f = a")
    case True
    then show ?thesis by (simp add: top_path_def)
  next
    case False
    then have "f \<in> set (b # r)" using 3 by auto
    then obtain s where "top_path (b # r) = obj f @ s" using 3 by auto
    moreover obtain s' where "obj a = obj b @ s'" using 3 by auto
    ultimately show ?thesis by (simp add: top_path_def)
  qed
qed

lemma chain_all_containers: "chain root fs \<Longrightarrow> f \<in> set fs \<Longrightarrow> container_at root (obj f)"
  by (induction root fs rule: chain.induct) auto

lemma chain_put:
  assumes "chain root fs" "get_at root (top_path fs) = Some t" "is_object new"
  shows "chain (put_at (top_path fs) new root) fs"
proof -
  have all: "\<forall>f \<in> set fs. container_at (put_at (top_path fs) new root) (obj f)"
  proof
    fix f assume f: "f \<in> set fs"
    from chain_prefixes[OF assms(1) f] obtain s where s: "top_path fs = obj f @ s" by blast
    show "container_at (put_at (top_path fs) new root) (obj f)"
      using container_put[OF assms(2,3) chain_all_containers[OF assms(1) f] s] .
  qed
  have "chain root' gs" if "chain root gs" "\<forall>f \<in> set gs. container_at root' (obj f)" for root' gs
    using that by (induction root gs rule: chain.induct) auto
  from this[OF assms(1) all] show ?thesis .
qed

lemma chain_pop: "chain root fs \<Longrightarrow> chain root (pop_frames i fs)"
  by (induction i fs rule: pop_frames.induct) auto

lemma chain_top: "chain root fs \<Longrightarrow> container_at root (top_path fs)"
  by (induction root fs rule: chain.induct) (auto simp: top_path_def)

lemma chain_push:
  "chain root fs \<Longrightarrow> container_at root (top_path fs @ s) \<Longrightarrow>
     chain root (\<lparr>indent = i, obj = top_path fs @ s\<rparr> # fs)"
  by (cases fs) (auto simp: top_path_def)

lemma map_of_obj_insert: "k \<notin> set (map fst kvs) \<Longrightarrow> map_of (obj_insert k v kvs) k = Some v"
  by (induction kvs) auto

lemma map_of_obj_set: "map_of (obj_set kvs k v) k = Some v"
proof (cases "k \<in> set (map fst kvs)")
  case True
  then obtain c where "map_of kvs k = Some c"
    by (metis map_of_eq_None_iff not_Some_eq set_map)
  then show ?thesis using True by (simp add: obj_set_def map_of_upd)
next
  case False
  then show ?thesis by (simp add: obj_set_def map_of_obj_insert)
qed

lemma assign_container: "assign n t key v = Inr t' \<Longrightarrow> is_object t' \<and> get_at t' [PKey key] = Some v"
  by (cases "(n, t, key, v)" rule: assign.cases) (auto simp: map_of_obj_set split: if_splits)

lemma assign_not_lost: "is_object t \<Longrightarrow> assign n t key v \<noteq> Inl (LostFrame m)"
  by (cases "(n, t, key, v)" rule: assign.cases) auto

lemma push_container:
  "push n t v = Inr t' \<Longrightarrow>
     is_object t' \<and> get_at t' [PIdx (array_length t)] = Some v"
  by (cases "(n, t, v)" rule: push.cases) (auto simp: array_length_def split: if_splits)

lemma push_not_lost: "isArray t \<Longrightarrow> push n t v \<noteq> Inl (LostFrame m)"
  by (cases "(n, t, v)" rule: push.cases) auto

lemma store_ok:
  assumes "frames_ok st" "store n st key v = Inr st'"
  shows "frames_ok st' \<and> stack st' = stack st \<and>
         get_at (result st') (top_path (stack st) @ [PKey key]) = Some v"
proof -
  let ?p = "top_path (stack st)"
  obtain target t' where t: "get_at (result st) ?p = Some target"
    and a: "assign n target key v = Inr t'"
    and r: "st' = st\<lparr>result := put_at ?p t' (result st)\<rparr>"
    using assms(2) by (auto simp: store_def Let_def split: option.splits sum.splits)
  from assign_container[OF a] have c: "is_object t'" "get_at t' [PKey key] = Some v" by auto
  have "chain (put_at ?p t' (result st)) (stack st)"
    using chain_put[OF _ t c(1)] assms(1) by (simp add: frames_ok_def)
  moreover have "get_at (put_at ?p t' (result st)) (?p @ [PKey key]) = Some v"
    using get_put_below[OF t, of t' "[PKey key]"] c(2) by simp
  ultimately show ?thesis using r by (simp add: frames_ok_def)
qed

lemma store_not_lost: "frames_ok st \<Longrightarrow> store n st key v \<noteq> Inl (LostFrame m)"
  using chain_top[of "result st" "stack st"]
  by (auto simp: store_def Let_def frames_ok_def container_at_def assign_not_lost
           split: option.splits sum.splits)

lemma append_ok:
  assumes "frames_ok st" "append n st v = Inr st'"
    "get_at (result st) (top_path (stack st)) = Some target"
  shows "frames_ok st' \<and> stack st' = stack st \<and>
         get_at (result st') (top_path (stack st) @ [PIdx (array_length target)] @ s) = get_at v s"
proof -
  let ?p = "top_path (stack st)"
  obtain t' where a: "push n target v = Inr t'"
    and r: "st' = st\<lparr>result := put_at ?p t' (result st)\<rparr>"
    using assms(2,3) by (auto simp: append_def Let_def split: option.splits sum.splits)
  from push_container[OF a] have c: "is_object t'" "get_at t' [PIdx (array_length target)] = Some v"
    by auto
  have "chain (put_at ?p t' (result st)) (stack st)"
    using chain_put[OF _ assms(3) c(1)] assms(1) by (simp add: frames_ok_def)
  moreover have "get_at t' ([PIdx (array_length target)] @ s) = get_at v s"
    using c(2) by (cases t') (auto split: if_splits)
  then have "get_at (put_at ?p t' (result st)) (?p @ [PIdx (array_length target)] @ s) = get_at v s"
    using get_put_below[OF assms(3), of t' "[PIdx (array_length target)] @ s"] by simp
  ultimately show ?thesis using r by (simp add: frames_ok_def)
qed

lemma append_not_lost:
  "get_at (result st) (top_path (stack st)) = Some target \<Longrightarrow> isArray target \<Longrightarrow>
     append n st v \<noteq> Inl (LostFrame m)"
  by (auto simp: append_def Let_def push_not_lost split: option.splits sum.splits)

lemma push_frame_ok:
  "frames_ok st \<Longrightarrow> container_at (result st) (top_path (stack st) @ s) \<Longrightarrow>
     frames_ok (push_frame i (top_path (stack st) @ s) st)"
  by (simp add: frames_ok_def push_frame_def chain_push)

lemma bind_Inr:
  "(case x of Inl e \<Rightarrow> Inl e | Inr s \<Rightarrow> Inr (f s)) = Inr y \<longleftrightarrow> (\<exists>s. x = Inr s \<and> y = f s)"
  by (cases x) auto

lemma bind_Inl:
  "(case x of Inl e \<Rightarrow> Inl e | Inr s \<Rightarrow> Inr (f s)) = Inl e' \<longleftrightarrow> x = Inl e'"
  by (cases x) auto


lemma frames_ok_cong:
  "frames_ok st \<Longrightarrow> result st' = result st \<Longrightarrow> stack st' = stack st \<Longrightarrow> frames_ok st'"
  by (simp add: frames_ok_def)

lemma push_frame_after:
  assumes "frames_ok st'" "stack st' = stack st"
    "get_at (result st') (top_path (stack st) @ s) = Some c" "is_object c"
  shows "frames_ok (push_frame i (top_path (stack st) @ s) st')"
  using push_frame_ok[of st' s i] assms by (simp add: container_at_def)

lemma list_item_ok:
  assumes ok: "frames_ok st"
    and t: "get_at (result st) (top_path (stack st)) = Some target"
    and arr: "isArray target"
  shows "list_item n ind tr target st \<noteq> Inl (LostFrame m)"
    and "list_item n ind tr target st = Inr st' \<Longrightarrow> frames_ok st'"
proof -
  note nl = append_not_lost[OF t arr]
  show "list_item n ind tr target st \<noteq> Inl (LostFrame m)"
    using nl by (simp add: list_item_def Let_def bind_Inl)
  assume r: "list_item n ind tr target st = Inr st'"
  let ?p = "top_path (stack st)"
  let ?n = "array_length target"
  let ?v = "trim (drop 2 tr)"
  consider
      (block) s1 where "append n st (JObj []) = Inr s1" "st' = push_frame ind (?p @ [PIdx ?n]) s1"
    | (nested) key s1 where "append n st (JObj [(key, JObj [])]) = Inr s1"
        "st' = push_frame ind (?p @ [PIdx ?n, PKey key]) s1"
    | (plain) v where "append n st v = Inr st'"
    using r unfolding list_item_def Let_def by (auto simp: bind_Inr split: if_splits)
  then show "frames_ok st'"
  proof cases
    case block
    from append_ok[OF ok block(1) t, of "[]"]
    have a: "frames_ok s1" "stack s1 = stack st"
      "get_at (result s1) (?p @ [PIdx ?n]) = Some (JObj [])" by auto
    show ?thesis using push_frame_after[OF a(1,2) a(3)] block(2) by simp
  next
    case nested
    from append_ok[OF ok nested(1) t, of "[PKey key]"]
    have a: "frames_ok s1" "stack s1 = stack st"
      "get_at (result s1) (?p @ [PIdx ?n, PKey key]) = Some (JObj [])" by auto
    show ?thesis using push_frame_after[OF a(1,2) a(3)] nested(2) by simp
  next
    case plain
    from append_ok[OF ok plain t, of "[]"] show ?thesis by simp
  qed
qed

lemma key_value_ok:
  assumes ok: "frames_ok st"
  shows "key_value n ind tr rest st \<noteq> Inl (LostFrame m)"
    and "key_value n ind tr rest st = Inr st' \<Longrightarrow> frames_ok st'"
proof -
  note nl = store_not_lost[OF ok]
  let ?p = "top_path (stack st)"
  let ?key = "trim (take (nat (indexOf tr (CHR '':''))) tr)"
  let ?vs = "trim (drop (nat (indexOf tr (CHR '':'')) + 1) tr)"
  obtain ni na where la: "lookahead rest = (ni, na)" by (cases "lookahead rest")
  define opened where "opened = (if na then JArr [] [] else JObj [])"
  have op: "is_object opened" by (simp add: opened_def)
  consider
      (nest) "0 < indexOf tr (CHR '':'')" "is_block_marker ?vs" "ind < ni"
    | (leaf) "0 < indexOf tr (CHR '':'')" "\<not> (is_block_marker ?vs \<and> ind < ni)"
    | (other) "\<not> 0 < indexOf tr (CHR '':'')"
    by blast
  then have "key_value n ind tr rest st \<noteq> Inl (LostFrame m) \<and>
             (key_value n ind tr rest st = Inr st' \<longrightarrow> frames_ok st')"
  proof cases
    case nest
    have kv: "key_value n ind tr rest st =
        (case store n st ?key opened of
           Inl e \<Rightarrow> Inl e
         | Inr s \<Rightarrow> Inr (push_frame ind (?p @ [PKey ?key]) s))"
      using nest la by (simp add: key_value_def Let_def opened_def)
    have "frames_ok st'" if r: "key_value n ind tr rest st = Inr st'"
    proof -
      from r kv obtain s1 where s1: "store n st ?key opened = Inr s1"
        and st': "st' = push_frame ind (?p @ [PKey ?key]) s1"
        by (auto simp: bind_Inr)
      from store_ok[OF ok s1]
      have a: "frames_ok s1" "stack s1 = stack st"
        "get_at (result s1) (?p @ [PKey ?key]) = Some opened" by auto
      show ?thesis using push_frame_after[OF a(1,2) a(3) op] st' by simp
    qed
    then show ?thesis using kv nl by (simp add: bind_Inl)
  next
    case leaf
    define v where "v = (if is_block_marker ?vs then (if ?vs = [] then JNull else JStr [])
                         else if ?vs = ''[]'' then JArr [] []
                         else if ?vs = ''{}'' then JObj []
                         else parseValue ?vs)"
    have kv: "key_value n ind tr rest st = store n st ?key v"
      using leaf la by (auto simp: key_value_def Let_def v_def)
    then show ?thesis using nl store_ok[OF ok, of n ?key v st'] by auto
  next
    case other
    then have "key_value n ind tr rest st = Inr st \<or>
               key_value n ind tr rest st =
                 Inr (st\<lparr>st_errors := st_errors st @ [mk_diag n 1 InvalidYamlSyntax None]\<rparr>)"
      by (simp add: key_value_def Let_def)
    then show ?thesis using ok by (auto simp: frames_ok_def)
  qed
  then show "key_value n ind tr rest st \<noteq> Inl (LostFrame m)"
    and "key_value n ind tr rest st = Inr st' \<Longrightarrow> frames_ok st'" by auto
qed

lemma parse_line_ok:
  assumes ok: "frames_ok st"
  shows "parse_line n l rest st \<noteq> Inl (LostFrame m)"
    and "parse_line n l rest st = Inr st' \<Longrightarrow> frames_ok st'"
proof -
  let ?ind = "search_nonws l"
  define st2 where "st2 = (check_indent n l st)\<lparr>stack := pop_frames ?ind (stack (check_indent n l st))\<rparr>"
  have ok2: "frames_ok st2"
    using ok chain_pop[of "result st" "stack st" ?ind]
    by (simp add: frames_ok_def check_indent_def Let_def st2_def)
  obtain target where t: "get_at (result st2) (top_path (stack st2)) = Some target"
    and obj: "is_object target"
    using chain_top[of "result st2" "stack st2"] ok2
    by (auto simp: frames_ok_def container_at_def split: option.splits)
  define st3 where "st3 = (if startsWith (trim l) ''-'' \<and> \<not> isArray target
                then st2\<lparr>st_errors := st_errors st2 @ [mk_diag n 1 ListParentNotList (Some Error)]\<rparr>
                else st2)"
  have r3: "result st3 = result st2" "stack st3 = stack st2" by (simp_all add: st3_def)
  have ok3: "frames_ok st3" using ok2 r3 by (simp add: frames_ok_def)
  have t3: "get_at (result st3) (top_path (stack st3)) = Some target" using t r3 by simp
  define body where "body = (if startsWith (trim l) ''- '' then
                      (if \<not> isArray target then Inr st3
                       else list_item n ?ind (trim l) target st3)
                    else if trim l = ''-'' then
                      (if isArray target then
                         (case append n st3 (JObj []) of
                            Inl e \<Rightarrow> Inl e
                          | Inr st' \<Rightarrow>
                              Inr (push_frame ?ind
                                     (top_path (stack st3) @ [PIdx (array_length target)]) st'))
                       else Inr st3)
                    else key_value n ?ind (trim l) rest st3)"
  have unfold: "parse_line n l rest st =
      (if \<not> is_content l then Inr st else if ?ind = - 1 then Inr st else body)"
    using t unfolding parse_line_def Let_def body_def st3_def st2_def by simp
  have b1: "body \<noteq> Inl (LostFrame m)"
    unfolding body_def
    using list_item_ok(1)[OF ok3 t3] key_value_ok(1)[OF ok3] append_not_lost[OF t3]
    by (simp add: bind_Inl)
  have b2: "frames_ok st'" if bd: "body = Inr st'"
  proof -
    consider (a) "st3 = st'"
      | (b) "isArray target" "list_item n ?ind (trim l) target st3 = Inr st'"
      | (c) s1 where "isArray target" "append n st3 (JObj []) = Inr s1"
          "st' = push_frame ?ind (top_path (stack st3) @ [PIdx (array_length target)]) s1"
      | (d) "key_value n ?ind (trim l) rest st3 = Inr st'"
      using bd unfolding body_def by (auto simp: bind_Inr split: if_splits)
    then show ?thesis
    proof cases
      case a
      then show ?thesis using ok3 by simp
    next
      case b
      then show ?thesis using list_item_ok(2)[OF ok3 t3] by simp
    next
      case c
      from append_ok[OF ok3 c(2) t3, of "[]"]
      have a: "frames_ok s1" "stack s1 = stack st3"
        "get_at (result s1) (top_path (stack st3) @ [PIdx (array_length target)]) = Some (JObj [])"
        by auto
      show ?thesis using push_frame_after[OF a(1,2) a(3)] c(3) by simp
    next
      case d
      then show ?thesis using key_value_ok(2)[OF ok3] by simp
    qed
  qed
  show "parse_line n l rest st \<noteq> Inl (LostFrame m)"
    using b1 unfold by auto
  show "parse_line n l rest st = Inr st' \<Longrightarrow> frames_ok st'"
    using b2 unfold ok by (auto split: if_splits)
qed

lemma parse_lines_ok:
  "frames_ok st \<Longrightarrow> parse_lines n ls st \<noteq> Inl (LostFrame m)"
proof (induction ls arbitrary: n st)
  case Nil
  then show ?case by simp
next
  case (Cons l ls)
  show ?case
  proof (cases "parse_line (Suc n) l ls st")
    case (Inl e)
    then show ?thesis using parse_line_ok(1)[OF Cons.prems, of "Suc n" l ls m] by auto
  next
    case (Inr s)
    then show ?thesis using Cons.IH[OF parse_line_ok(2)[OF Cons.prems Inr]] by simp
  qed
qed

lemma init_frames_ok: "frames_ok init_state"
  by (simp add: frames_ok_def init_state_def container_at_def)

lemma parse_keeps_frames: "parse text \<noteq> Inl (LostFrame m)"
  using parse_lines_ok[OF init_frames_ok, of 0 "split_lines text" m]
  by (auto simp: parse_def split: sum.splits)

lemma parse_lines_in_range:
  assumes "parse text = Inr doc"
  shows "list_all (\<lambda>d. 1 \<le> line d \<and> line d \<le> length (split_lines text)) (errors doc)"
proof -
  obtain final where "run_lines 0 (split_lines text) [] init_state = Inr final"
    and "errors doc = st_errors final"
    using assms by (auto simp: parse_def run_lines_all split: sum.splits)
  from run_lines_errors_range[OF this(1)] this(2) show ?thesis
    by (auto simp: init_state_def list_all_iff)
qed

subsection \<open>Serialisation and parsing\<close>

text \<open>
  Claim C1 says that parsing the serialisation of a tree that \<open>parse\<close> produced without
  diagnostics gives the tree back. The source does not do that: the line \<^verbatim>\<open>a: "true"\<close>
  parses, without diagnostics, to the object whose \<open>a\<close> is the string \<open>true\<close>;
  \<open>valueToString\<close> quotes a string only when it has a colon, a hash, a single quote or a
  space at either end, so \<open>stringify\<close> prints \<^verbatim>\<open>a: true\<close>, which parses to the object whose
  \<open>a\<close> is the boolean \<open>true\<close>.
\<close>

theorem roundtrip_loses_quoted_true:
  "parse ''a: \"true\"'' = Inr \<lparr>data = JObj [(''a'', JStr ''true'')], errors = []\<rparr> \<and>
   stringify (JObj [(''a'', JStr ''true'')]) 0 = Some ''a: true\<newline>'' \<and>
   parse ''a: true\<newline>'' = Inr \<lparr>data = JObj [(''a'', JBool True)], errors = []\<rparr>"
  by code_simp

subsection \<open>The severity of a diagnostic\<close>

text \<open>
  Claim C5 says that every diagnostic of \<open>parse\<close> and of \<open>validate\<close> has a severity, \<open>error\<close>
  or \<open>warning\<close>. The diagnostic that \<open>parse\<close> pushes for a line with neither a colon nor a
  list marker (line 178 of the source) has no \<open>severity\<close> field, alone among the fifteen
  diagnostics of the source: on the text \<^verbatim>\<open>foo\<close> it is the only diagnostic.
\<close>

theorem invalid_syntax_has_no_severity:
  "parse ''foo'' =
     Inr \<lparr>data = JObj [],
          errors = [\<lparr>line = 1, column = 1, message = InvalidYamlSyntax, severity = None,
                     validValues = None, validKeys = None\<rparr>]\<rparr>"
  by code_simp

subsection \<open>A list item under a container that is not an array\<close>




subsection \<open>The indentation law\<close>



section \<open>Properties of the validator\<close>

subsection \<open>Enumerated values\<close>

text \<open>
  Claim C3 says that a string value of a key with enumerated values gets a warning
  unless it equals an entry or begins with the part before the bracketed placeholder of
  an entry that has one, and that an entry without a placeholder admits only the equal
  string. The source compares the value with \<open>v.split('[')[0]\<close> for every entry \<open>v\<close>, and
  for an entry without a bracket that is the whole entry: \<open>restart: nope\<close> begins with the
  entry \<open>no\<close> of \<open>restart\<close> and gets no warning.
\<close>

theorem enum_entry_accepted_as_prefix:
  "parse ''services:\<newline>  web:\<newline>    image: nginx\<newline>    restart: nope'' =
     Inr \<lparr>data = JObj [(''services'', JObj [(''web'',
                  JObj [(''image'', JStr ''nginx''), (''restart'', JStr ''nope'')])])],
          errors = []\<rparr> \<and>
   sch_values (schema_at (children_of serviceSchema) ''restart'') =
     Values [''no'', ''always'', ''on-failure'', ''unless-stopped''] \<and>
   validate ''services:\<newline>  web:\<newline>    image: nginx\<newline>    restart: nope''
     (JObj [(''services'', JObj [(''web'',
                  JObj [(''image'', JStr ''nginx''), (''restart'', JStr ''nope'')])])]) = Inr []"
  by code_simp

subsection \<open>Line numbers of diagnostics\<close>

text \<open>
  Claim C6 says that the line of every diagnostic is between 1 and the number of lines
  of the text. For an unknown key of a service the source calls
  \<open>findKeyLine(lines, key, findKeyLine(lines, serviceName, 0))\<close>: the inner result, a line
  number counted from 1, is the index counted from 0 at which the outer search starts,
  and \<open>startLine + 1\<close> is returned when the search finds nothing. In the text below
  \<open>services\<close> is an array, its one entry has the name \<open>0\<close>, the only line that matches \<open>0\<close> is
  the last one, line 3, and the diagnostic for the unknown key \<open>foo\<close> gets line 4 of a
  text of 3 lines.
\<close>

theorem diagnostic_line_beyond_text:
  "parse ''services:\<newline>  - foo: 1\<newline>0: x'' =
     Inr \<lparr>data = JObj [(''0'', JStr ''x''),
                        (''services'', JArr [JObj [(''foo'', JNum 1 0)]] [])],
          errors = []\<rparr> \<and>
   length (split_lines ''services:\<newline>  - foo: 1\<newline>0: x'') = 3 \<and>
   map_sum id (map (\<lambda>d. (line d, message d)))
     (validate ''services:\<newline>  - foo: 1\<newline>0: x''
        (JObj [(''0'', JStr ''x''), (''services'', JArr [JObj [(''foo'', JNum 1 0)]] [])])) =
     Inr [(3, UnknownTopLevelKey ''0''), (3, MissingImageOrBuild ''0''),
          (4, UnknownServiceKey ''foo'' ''0'')]"
  by code_simp

subsection \<open>The diagnostic for a service without image and build\<close>

















subsection \<open>An image key without a value\<close>



section \<open>Properties of the autocomplete engine\<close>

subsection \<open>The context under a deploy key\<close>

text \<open>
  Claim C8: for the four lines \<^verbatim>\<open>services:\<close>, \<^verbatim>\<open>  web:\<close>, \<^verbatim>\<open>    deploy:\<close> and a line of six
  spaces, the context at line 4 has the path \<open>services\<close>, \<open>web\<close>, \<open>deploy\<close>, and the key
  suggestions for that context begin with \<open>mode\<close>, \<open>replicas\<close>, \<open>placement\<close>, \<open>resources\<close>, in
  that order, whatever \<open>localeCompare\<close> is.
\<close>

theorem deploy_context_and_suggestions:
  "getContext (split_lines ''services:\<newline>  web:\<newline>    deploy:\<newline>      '') 4 =
     Inr \<lparr>path = [''services'', ''web'', ''deploy''], ctx_indent = 4\<rparr> \<and>
   take 4 (map label (getKeySuggestions lc
      \<lparr>path = [''services'', ''web'', ''deploy''], ctx_indent = 4\<rparr>)) =
     [''mode'', ''replicas'', ''placement'', ''resources'']"
  by code_simp

subsection \<open>Filtering by the typed text\<close>






subsection \<open>When the value suggestions are returned\<close>













end
